theory Spec2Isabelle
  imports Main
begin

section \<open>Strings and JSON values\<close>

text \<open>
  A JavaScript string is modelled as a \<^typ>\<open>string\<close> whose characters are code units
  below 256 (the Latin-1 range).  \<open>String.prototype.trim\<close> removes white space from both
  ends; in that range the white-space characters are TAB, LF, VT, FF, CR, SPACE and NBSP.
  \<open>String.prototype.toLowerCase\<close> maps \<open>A\<close>..\<open>Z\<close> and the Latin-1 capitals
  (0xC0..0xDE without 0xD7) to the character 32 places later.
\<close>

definition is_space :: "char \<Rightarrow> bool" where
  "is_space c = (let n = (of_char c :: nat) in (9 \<le> n \<and> n \<le> 13) \<or> n = 32 \<or> n = 160)"

definition lower_char :: "char \<Rightarrow> char" where
  "lower_char c =
     (let n = (of_char c :: nat)
      in if (65 \<le> n \<and> n \<le> 90) \<or> (192 \<le> n \<and> n \<le> 222 \<and> n \<noteq> 215)
         then char_of (n + 32) else c)"

definition toLowerCase :: "string \<Rightarrow> string" where
  "toLowerCase s = map lower_char s"

definition trim :: "string \<Rightarrow> string" where
  "trim s = rev (dropWhile is_space (rev (dropWhile is_space s)))"

text \<open>
  A value read from \<open>req.body\<close>, \<open>req.cookies\<close> or \<open>process.env\<close> is a string or
  \<open>undefined\<close> (\<open>None\<close>).  \<open>!x\<close> holds for \<open>undefined\<close> and for the empty string;
  \<open>present\<close> returns the string exactly when \<open>!x\<close> is false.  \<open>a || d\<close> is \<open>js_or\<close>, and
  a template literal prints \<open>undefined\<close> for a missing value.
\<close>

definition present :: "string option \<Rightarrow> string option" where
  "present x = (case x of None \<Rightarrow> None | Some v \<Rightarrow> if v = [] then None else Some v)"

definition js_or :: "string option \<Rightarrow> string option \<Rightarrow> string option" where
  "js_or a d = (case present a of None \<Rightarrow> d | Some v \<Rightarrow> Some v)"

definition tmpl :: "string option \<Rightarrow> string" where
  "tmpl x = (case x of None \<Rightarrow> ''undefined'' | Some v \<Rightarrow> v)"

datatype json =
    JStr string
  | JNum nat
  | JBool bool
  | JObj "(string \<times> json) list"

text \<open>Every key that occurs in a JSON value, at any depth.\<close>

fun json_keys :: "json \<Rightarrow> string list" where
  "json_keys (JObj kvs) = concat (map (\<lambda>kv. fst kv # json_keys (snd kv)) kvs)"
| "json_keys _ = []"

section \<open>The users collection\<close>

text \<open>
  A document of the \<open>users\<close> collection, as \<open>userSchema\<close> declares it.  The paths that
  a query may leave out (\<open>select: false\<close>) or that are not required are optional.  The
  \<open>_id\<close> of a document is its position in the collection: documents are inserted at the
  end and never deleted.  \<open>timestamps: true\<close> adds \<open>createdAt\<close> and \<open>updatedAt\<close>; dates
  are milliseconds since the epoch.
\<close>

record user =
  name :: string
  email :: string
  password :: "string option"
  phone :: "string option"
  occupation :: "string option"
  source :: "string option"
  emailVerified :: bool
  verifyToken :: "string option"
  verifyTokenExpires :: "nat option"
  createdAt :: nat
  updatedAt :: nat

subsection \<open>Setters and validators of the schema\<close>

definition set_name :: "string \<Rightarrow> string" where
  "set_name v = trim v"

definition set_email :: "string \<Rightarrow> string" where
  "set_email v = trim (toLowerCase v)"

definition is_digit :: "char \<Rightarrow> bool" where
  "is_digit c = (let n = (of_char c :: nat) in 48 \<le> n \<and> n \<le> 57)"

text \<open>
  \<open>/^\S+@\S+\.\S+$/\<close>: no white space anywhere, an \<open>@\<close> that is not the first
  character and, at least one character after it, a dot that is not the last character.
  Taking the leftmost such \<open>@\<close> leaves the longest rest, so it decides the match.
\<close>

definition match_email :: "string \<Rightarrow> bool" where
  "match_email v =
     (list_all (\<lambda>c. \<not> is_space c) v \<and>
      (let rest = drop 1 (dropWhile (\<lambda>c. c \<noteq> CHR ''@'') (tl v))
       in CHR ''.'' \<in> set (butlast (tl rest))))"

text \<open>\<open>/^[0-9]{10}$/\<close>\<close>

definition match_phone :: "string \<Rightarrow> bool" where
  "match_phone v = (length v = 10 \<and> list_all is_digit v)"

text \<open>
  Mongoose's \<open>match\<close> validator accepts a missing or empty value, \<open>minlength\<close> and
  \<open>maxlength\<close> accept a missing one, and \<open>required\<close> asks for a non-empty string.
\<close>

definition opt_ok :: "(string \<Rightarrow> bool) \<Rightarrow> string option \<Rightarrow> bool" where
  "opt_ok P x = (case x of None \<Rightarrow> True | Some v \<Rightarrow> P v)"

definition validate :: "user \<Rightarrow> bool" where
  "validate u =
     (name u \<noteq> [] \<and> 2 \<le> length (name u) \<and> length (name u) \<le> 100 \<and>
      email u \<noteq> [] \<and> match_email (email u) \<and>
      present (password u) \<noteq> None \<and> opt_ok (\<lambda>v. 6 \<le> length v) (password u) \<and>
      opt_ok (\<lambda>v. v = [] \<or> match_phone v) (phone u) \<and>
      opt_ok (\<lambda>v. length v \<le> 100) (occupation u) \<and>
      opt_ok (\<lambda>v. length v \<le> 100) (source u))"

subsection \<open>Projections\<close>

text \<open>
  The paths declared with \<open>select: false\<close> are left out of every query result unless the
  query names them with \<open>+\<close>.  A query with an exclusion list (\<open>-path\<close>) leaves out the
  listed paths and, still, the \<open>select: false\<close> ones.  The selections of this program
  only ever name the three paths below.
\<close>

definition schema_unselected :: "string list" where
  "schema_unselected = [''password'', ''verifyToken'', ''verifyTokenExpires'']"

datatype selection = Default_select | Plus "string list" | Minus "string list"

definition excluded :: "selection \<Rightarrow> string list" where
  "excluded sel =
     (case sel of
        Default_select \<Rightarrow> schema_unselected
      | Plus fs \<Rightarrow> filter (\<lambda>f. f \<notin> set fs) schema_unselected
      | Minus fs \<Rightarrow> fs @ filter (\<lambda>f. f \<notin> set fs) schema_unselected)"

definition project :: "selection \<Rightarrow> user \<Rightarrow> user" where
  "project sel u =
     u\<lparr> password := (if ''password'' \<in> set (excluded sel) then None else password u),
        verifyToken := (if ''verifyToken'' \<in> set (excluded sel) then None else verifyToken u),
        verifyTokenExpires :=
          (if ''verifyTokenExpires'' \<in> set (excluded sel) then None else verifyTokenExpires u) \<rparr>"

text \<open>\<open>res.json(user)\<close>: the paths the document holds, \<open>_id\<close> first (\<open>versionKey: false\<close>).\<close>

definition opt_field :: "string \<Rightarrow> ('a \<Rightarrow> json) \<Rightarrow> 'a option \<Rightarrow> (string \<times> json) list" where
  "opt_field k f x = (case x of None \<Rightarrow> [] | Some v \<Rightarrow> [(k, f v)])"

definition toJSON :: "nat \<Rightarrow> user \<Rightarrow> (string \<times> json) list" where
  "toJSON i u =
     [(''_id'', JNum i), (''name'', JStr (name u)), (''email'', JStr (email u))]
     @ opt_field ''password'' JStr (password u)
     @ opt_field ''phone'' JStr (phone u)
     @ opt_field ''occupation'' JStr (occupation u)
     @ opt_field ''source'' JStr (source u)
     @ [(''emailVerified'', JBool (emailVerified u))]
     @ opt_field ''verifyToken'' JStr (verifyToken u)
     @ opt_field ''verifyTokenExpires'' JNum (verifyTokenExpires u)
     @ [(''createdAt'', JNum (createdAt u)), (''updatedAt'', JNum (updatedAt u))]"

subsection \<open>Queries\<close>

text \<open>The position of the first element that satisfies \<open>P\<close>: what \<open>findOne\<close> returns.\<close>

fun find_idx :: "('a \<Rightarrow> bool) \<Rightarrow> 'a list \<Rightarrow> nat option" where
  "find_idx P [] = None"
| "find_idx P (x # xs) = (if P x then Some 0 else map_option Suc (find_idx P xs))"

text \<open>
  \<open>User.findOne({ email: q })\<close>.  Mongoose casts the filter with the schema, and the
  cast of a string path runs its setters, so the collection is searched for
  \<open>set_email q\<close>.  The result is the \<open>_id\<close> and the projected document.
\<close>

definition findOne_email :: "selection \<Rightarrow> string \<Rightarrow> user list \<Rightarrow> (nat \<times> user) option" where
  "findOne_email sel q us =
     map_option (\<lambda>i. (i, project sel (us ! i))) (find_idx (\<lambda>u. email u = set_email q) us)"

text \<open>
  \<open>User.findOne({ verifyToken: h, verifyTokenExpires: { $gt: t } })\<close>: a document
  without \<open>verifyTokenExpires\<close> does not match \<open>$gt\<close>.
\<close>

definition token_matches :: "string \<Rightarrow> nat \<Rightarrow> user \<Rightarrow> bool" where
  "token_matches h t u =
     (verifyToken u = Some h \<and> (case verifyTokenExpires u of None \<Rightarrow> False | Some x \<Rightarrow> t < x))"

definition findOne_token :: "selection \<Rightarrow> string \<Rightarrow> nat \<Rightarrow> user list \<Rightarrow> (nat \<times> user) option" where
  "findOne_token sel h t us =
     map_option (\<lambda>i. (i, project sel (us ! i))) (find_idx (token_matches h t) us)"

definition findById :: "selection \<Rightarrow> nat \<Rightarrow> user list \<Rightarrow> (nat \<times> user) option" where
  "findById sel i us = (if i < length us then Some (i, project sel (us ! i)) else None)"

section \<open>Collaborators\<close>

text \<open>
  The libraries the handlers call are parameters of the model.  \<open>lib\<close> holds the
  deterministic ones: \<open>bcrypt.hash(s, salt)\<close>, \<open>bcrypt.compare(s, hash)\<close> on two
  strings, the hex SHA-256 digest, and \<open>jwt.sign\<close>/\<open>jwt.verify\<close> under the signing
  secret (\<open>jwt_sign id t\<close> signs \<open>{ id }\<close> at time \<open>t\<close> for one day; \<open>jwt_verify\<close>
  returns the \<open>id\<close> of the payload, or \<open>None\<close> where the library throws).
  \<open>config\<close> is \<open>process.env\<close>.  \<open>env\<close> is what one request draws from the outside:
  the clock, the random token, the salts of the two \<open>bcrypt\<close> calls, and whether the
  promise of each \<open>transporter.sendMail\<close> resolves.  The store is assumed to answer
  every query and write.
\<close>

record lib =
  bcrypt_hash :: "string \<Rightarrow> string \<Rightarrow> string"
  bcrypt_check :: "string \<Rightarrow> string \<Rightarrow> bool"
  sha256_hex :: "string \<Rightarrow> string"
  jwt_sign :: "nat \<Rightarrow> nat \<Rightarrow> string"
  jwt_verify :: "string \<Rightarrow> nat \<Rightarrow> nat option"

record config =
  FRONTEND_URL :: "string option"
  APP_BASE_URL :: "string option"
  API_BASE_URL :: "string option"
  ADMIN_EMAIL :: "string option"
  production :: bool

record env =
  now :: nat
  randomBytes_hex :: string
  genSalt_handler :: string
  genSalt_hook :: string
  mail_ok :: bool
  admin_mail_ok :: bool

text \<open>
  \<open>bcrypt.compare\<close> rejects its promise (\<open>None\<close>) unless both arguments are strings.
\<close>

definition bcrypt_compare :: "lib \<Rightarrow> string option \<Rightarrow> string option \<Rightarrow> bool option" where
  "bcrypt_compare L s h =
     (case s of None \<Rightarrow> None
      | Some s' \<Rightarrow> (case h of None \<Rightarrow> None | Some h' \<Rightarrow> Some (bcrypt_check L s' h')))"

datatype mail_content =
    Verification_mail string string
  | New_user_mail string string

record mail =
  rcpt :: string
  content :: mail_content

text \<open>
  The state: the \<open>users\<close> collection in insertion order, and the messages handed to
  \<open>transporter.sendMail\<close>, in order.
\<close>

record state =
  users :: "user list"
  mail_log :: "mail list"

definition init_state :: state where
  "init_state = \<lparr> users = [], mail_log = [] \<rparr>"

definition sendMail :: "mail \<Rightarrow> state \<Rightarrow> state" where
  "sendMail m s = s\<lparr> mail_log := mail_log s @ [m] \<rparr>"

subsection \<open>Responses\<close>

datatype cookie_op =
    No_cookie
  | Set_token string bool
  | Clear_token bool

datatype reply =
    Json_reply json
  | Text_reply string
  | Redirect_reply string

record response =
  status :: nat
  reply :: reply
  cookie :: cookie_op

definition json_msg :: "nat \<Rightarrow> string \<Rightarrow> response" where
  "json_msg n m = \<lparr> status = n, reply = Json_reply (JObj [(''message'', JStr m)]), cookie = No_cookie \<rparr>"

definition send_text :: "nat \<Rightarrow> string \<Rightarrow> response" where
  "send_text n m = \<lparr> status = n, reply = Text_reply m, cookie = No_cookie \<rparr>"

definition redirect :: "string \<Rightarrow> response" where
  "redirect url = \<lparr> status = 302, reply = Redirect_reply url, cookie = No_cookie \<rparr>"

subsection \<open>Writes\<close>

text \<open>
  \<open>userSchema.pre("save")\<close>: when the password path is modified, it is replaced by its
  bcrypt hash under a fresh salt.  The path is modified on a new document and on none of
  the later saves of this program.
\<close>

definition pre_save :: "lib \<Rightarrow> env \<Rightarrow> bool \<Rightarrow> user \<Rightarrow> user" where
  "pre_save L E password_modified doc =
     (if \<not> password_modified then doc
      else doc\<lparr> password := map_option (\<lambda>p. bcrypt_hash L p (genSalt_hook E)) (password doc) \<rparr>)"

datatype db_error = ValidationError | DuplicateKey

text \<open>
  Saving a new document (\<open>User.create\<close>, or \<open>save\<close> on \<open>new User\<close>): validation runs
  first, then the \<open>pre("save")\<close> hook, then the insert, which the unique index on
  \<open>email\<close> refuses with error 11000 for an email already stored.
\<close>

definition insert_user :: "lib \<Rightarrow> env \<Rightarrow> user \<Rightarrow> state \<Rightarrow> db_error + (nat \<times> state)" where
  "insert_user L E doc s =
     (if \<not> validate doc then Inl ValidationError
      else let doc' = pre_save L E True doc
           in if find_idx (\<lambda>u. email u = email doc') (users s) \<noteq> None then Inl DuplicateKey
              else Inr (length (users s), s\<lparr> users := users s @ [doc'] \<rparr>))"

text \<open>
  \<open>save\<close> on a document that a query returned or that was saved before: the modified
  paths are written to the stored document, \<open>updatedAt\<close> is set.  None of the paths
  this program modifies has a validator.
\<close>

definition save_paths :: "lib \<Rightarrow> env \<Rightarrow> nat \<Rightarrow> (user \<Rightarrow> user) \<Rightarrow> state \<Rightarrow> state" where
  "save_paths L E i upd s =
     s\<lparr> users := (users s)[i := pre_save L E False (upd (users s ! i)\<lparr> updatedAt := now E \<rparr>)] \<rparr>"

text \<open>The request body, as the handlers destructure it.\<close>

record body =
  body_name :: "string option"
  body_email :: "string option"
  body_password :: "string option"
  body_phone :: "string option"
  body_occupation :: "string option"
  body_source :: "string option"

definition day_ms :: nat where
  "day_ms = 24 * 60 * 60 * 1000"

definition localhost :: "string option" where
  "localhost = Some ''http://localhost:5173''"

definition new_user ::
  "env \<Rightarrow> string \<Rightarrow> string \<Rightarrow> string \<Rightarrow> string option \<Rightarrow> string option \<Rightarrow> string option \<Rightarrow> user" where
  "new_user E n e p ph oc so =
     \<lparr> name = set_name n, email = set_email e, password = Some p,
       phone = map_option trim ph, occupation = map_option trim oc, source = map_option trim so,
       emailVerified = False, verifyToken = None, verifyTokenExpires = None,
       createdAt = now E, updatedAt = now E \<rparr>"

section \<open>The controller\<close>

text \<open>
  The handlers \<open>registerUser\<close>, \<open>verifyEmail\<close>, \<open>resendVerification\<close>, \<open>loginUser\<close>,
  \<open>logoutUser\<close> and \<open>getMe\<close>.  Each takes the request and the state and returns the
  response and the new state; a rejected promise under \<open>try\<close> is the branch of the
  \<open>catch\<close> block.
\<close>

definition registerUser :: "lib \<Rightarrow> config \<Rightarrow> env \<Rightarrow> body \<Rightarrow> state \<Rightarrow> response \<times> state" where
  "registerUser L C E b s =
     (let required = (json_msg 400 ''Name, email, and password are required.'', s) in
      case present (body_name b) of None \<Rightarrow> required | Some n \<Rightarrow>
      (case present (body_email b) of None \<Rightarrow> required | Some e \<Rightarrow>
      (case present (body_password b) of None \<Rightarrow> required | Some p \<Rightarrow>
      (case findOne_email Default_select (trim (toLowerCase e)) (users s) of
         Some existing \<Rightarrow> (json_msg 400 ''User already exists.'', s)
       | None \<Rightarrow>
          let hashed = bcrypt_hash L p (genSalt_handler E);
              doc = new_user E (trim n) (trim (toLowerCase e)) hashed
                      (body_phone b) (body_occupation b) (body_source b)
          in (case insert_user L E doc s of
                Inl DuplicateKey \<Rightarrow> (json_msg 400 ''Email already registered.'', s)
              | Inl ValidationError \<Rightarrow> (json_msg 500 ''Server error during registration.'', s)
              | Inr (i, s1) \<Rightarrow>
                 let rawToken = randomBytes_hex E;
                     hashedToken = sha256_hex L rawToken;
                     s2 = save_paths L E i
                            (\<lambda>u. u\<lparr> verifyToken := Some hashedToken,
                                    verifyTokenExpires := Some (now E + day_ms) \<rparr>) s1;
                     user = users s2 ! i;
                     verifyUrl = tmpl (js_or (FRONTEND_URL C) (js_or (APP_BASE_URL C) localhost))
                                 @ ''/verify/'' @ rawToken;
                     s3 = sendMail \<lparr> rcpt = email user,
                                     content = Verification_mail (name user) verifyUrl \<rparr> s2;
                     s4 = (case present (ADMIN_EMAIL C) of
                             None \<Rightarrow> s3
                           | Some admin \<Rightarrow>
                               sendMail \<lparr> rcpt = admin,
                                          content = New_user_mail (name user) (email user) \<rparr> s3)
                 in (json_msg 201
                       ''User registered. Please check your email to verify your account.'', s4))))))"

definition verified_paths :: "user \<Rightarrow> user" where
  "verified_paths u = u\<lparr> emailVerified := True, verifyToken := None, verifyTokenExpires := None \<rparr>"

definition verifyEmail :: "lib \<Rightarrow> config \<Rightarrow> env \<Rightarrow> string \<Rightarrow> state \<Rightarrow> response \<times> state" where
  "verifyEmail L C E token s =
     (if token = [] then (send_text 400 ''Invalid verification token.'', s)
      else let hashed = sha256_hex L token
           in case findOne_token Default_select hashed (now E) (users s) of
                None \<Rightarrow> (send_text 400 ''Invalid or expired verification link.'', s)
              | Some (i, user) \<Rightarrow>
                  (redirect (tmpl (js_or (FRONTEND_URL C) localhost) @ ''/verify-success''),
                   save_paths L E i verified_paths s))"

definition resendVerification :: "lib \<Rightarrow> config \<Rightarrow> env \<Rightarrow> body \<Rightarrow> state \<Rightarrow> response \<times> state" where
  "resendVerification L C E b s =
     (case present (body_email b) of
        None \<Rightarrow> (json_msg 400 ''Email is required.'', s)
      | Some e \<Rightarrow>
         (case findOne_email Default_select (trim (toLowerCase e)) (users s) of
            None \<Rightarrow> (json_msg 404 ''User not found.'', s)
          | Some (i, user) \<Rightarrow>
              if emailVerified user then (json_msg 200 ''Email already verified.'', s)
              else let rawToken = randomBytes_hex E;
                       s1 = save_paths L E i
                              (\<lambda>u. u\<lparr> verifyToken := Some (sha256_hex L rawToken),
                                      verifyTokenExpires := Some (now E + day_ms) \<rparr>) s;
                       verifyUrl = tmpl (js_or (FRONTEND_URL C) localhost) @ ''/verify/'' @ rawToken;
                       s2 = sendMail \<lparr> rcpt = email user,
                                       content = Verification_mail (name user) verifyUrl \<rparr> s1
                   in if mail_ok E
                      then (json_msg 200 ''Verification email resent successfully.'', s2)
                      else (json_msg 500 ''Server error during resend.'', s2)))"

definition login_ok :: "lib \<Rightarrow> config \<Rightarrow> env \<Rightarrow> (string \<times> json) list \<Rightarrow> nat \<Rightarrow> user \<Rightarrow> response" where
  "login_ok L C E extra i user =
     \<lparr> status = 200,
       reply = Json_reply (JObj (extra @
                 [(''message'', JStr ''Login successful.''),
                  (''user'', JObj [(''id'', JNum i), (''name'', JStr (name user)),
                                   (''email'', JStr (email user))])])),
       cookie = Set_token (jwt_sign L i (now E)) (production C) \<rparr>"

definition loginUser :: "lib \<Rightarrow> config \<Rightarrow> env \<Rightarrow> body \<Rightarrow> state \<Rightarrow> response \<times> state" where
  "loginUser L C E b s =
     (let required = (json_msg 400 ''Email and password required.'', s) in
      case present (body_email b) of None \<Rightarrow> required | Some e \<Rightarrow>
      (case present (body_password b) of None \<Rightarrow> required | Some p \<Rightarrow>
      (case findOne_email Default_select (trim (toLowerCase e)) (users s) of
         None \<Rightarrow> (json_msg 400 ''Invalid credentials.'', s)
       | Some (i, user) \<Rightarrow>
           if \<not> emailVerified user
           then (json_msg 403 ''Please verify your email to continue.'', s)
           else (case bcrypt_compare L (Some p) (password user) of
                   None \<Rightarrow> (json_msg 500 ''Server error during login.'', s)
                 | Some isMatch \<Rightarrow>
                     if \<not> isMatch then (json_msg 400 ''Invalid credentials.'', s)
                     else (login_ok L C E [] i user, s)))))"

definition logoutUser :: "config \<Rightarrow> state \<Rightarrow> response \<times> state" where
  "logoutUser C s =
     (\<lparr> status = 200,
        reply = Json_reply (JObj [(''message'', JStr ''Logged out successfully.'')]),
        cookie = Clear_token (production C) \<rparr>, s)"

definition getMe :: "lib \<Rightarrow> env \<Rightarrow> string option \<Rightarrow> state \<Rightarrow> response \<times> state" where
  "getMe L E token_cookie s =
     (case present token_cookie of
        None \<Rightarrow> (json_msg 401 ''Not authorized.'', s)
      | Some token \<Rightarrow>
         (case jwt_verify L token (now E) of
            None \<Rightarrow> (json_msg 500 ''Server error.'', s)
          | Some decoded_id \<Rightarrow>
             (case findById (Minus [''password'', ''verifyToken'', ''verifyTokenExpires''])
                     decoded_id (users s) of
                None \<Rightarrow> (json_msg 404 ''User not found.'', s)
              | Some (i, user) \<Rightarrow>
                  (\<lparr> status = 200, reply = Json_reply (JObj (toJSON i user)), cookie = No_cookie \<rparr>,
                   s))))"

section \<open>The router\<close>

text \<open>
  The second implementation of the same endpoints, in \<open>routes/auth.js\<close>: \<open>POST
  /register\<close>, \<open>GET /verify/:token\<close>, \<open>POST /login\<close>, \<open>POST /logout\<close> and \<open>GET /me\<close>.
  It passes the body's \<open>email\<close> to the query and to the document as it came (the schema
  normalises it), awaits both emails, and selects \<open>+password\<close> at login.
\<close>

definition router_register :: "lib \<Rightarrow> config \<Rightarrow> env \<Rightarrow> body \<Rightarrow> state \<Rightarrow> response \<times> state" where
  "router_register L C E b s =
     (let required = (json_msg 400 ''All fields are required.'', s);
          failed = json_msg 500 ''Server error during registration.'';
          created = \<lparr> status = 201,
                      reply = Json_reply (JObj [(''success'', JBool True), (''message'', JStr
                        ''User registered successfully. Please check your email to verify your account.'')]),
                      cookie = No_cookie \<rparr> in
      case present (body_name b) of None \<Rightarrow> required | Some n \<Rightarrow>
      (case present (body_email b) of None \<Rightarrow> required | Some e \<Rightarrow>
      (case present (body_password b) of None \<Rightarrow> required | Some p \<Rightarrow>
      (case findOne_email Default_select e (users s) of
         Some existingUser \<Rightarrow> (json_msg 400 ''User already exists.'', s)
       | None \<Rightarrow>
          let hashedPassword = bcrypt_hash L p (genSalt_handler E);
              token = randomBytes_hex E;
              user = (new_user E n e hashedPassword None None None)
                       \<lparr> verifyToken := Some (sha256_hex L token),
                         verifyTokenExpires := Some (now E + day_ms) \<rparr>
          in (case insert_user L E user s of
                Inl err \<Rightarrow> (failed, s)
              | Inr (i, s1) \<Rightarrow>
                 let verifyUrl = tmpl (API_BASE_URL C) @ ''/api/auth/verify/'' @ token;
                     s2 = sendMail \<lparr> rcpt = e, content = Verification_mail n verifyUrl \<rparr> s1
                 in if \<not> mail_ok E then (failed, s2)
                    else (case present (ADMIN_EMAIL C) of
                            None \<Rightarrow> (created, s2)
                          | Some admin \<Rightarrow>
                              let s3 = sendMail \<lparr> rcpt = admin, content = New_user_mail n e \<rparr> s2
                              in if \<not> admin_mail_ok E then (failed, s3) else (created, s3)))))))"

definition router_verify :: "lib \<Rightarrow> config \<Rightarrow> env \<Rightarrow> string \<Rightarrow> state \<Rightarrow> response \<times> state" where
  "router_verify L C E token s =
     (let hashedToken = sha256_hex L token
      in case findOne_token Default_select hashedToken (now E) (users s) of
           None \<Rightarrow> (redirect (tmpl (APP_BASE_URL C) @ ''/verify-failed''), s)
         | Some (i, user) \<Rightarrow>
             (redirect (tmpl (APP_BASE_URL C) @ ''/verify-success''),
              save_paths L E i verified_paths s))"

text \<open>
  \<open>POST /login\<close> does not check that the fields are there.  A filter \<open>{ email:
  undefined }\<close> reaches the store as \<open>{ email: null }\<close> and matches no document, since
  \<open>email\<close> is required.
\<close>

definition router_login :: "lib \<Rightarrow> config \<Rightarrow> env \<Rightarrow> body \<Rightarrow> state \<Rightarrow> response \<times> state" where
  "router_login L C E b s =
     (case (case body_email b of
              None \<Rightarrow> None
            | Some e \<Rightarrow> findOne_email (Plus [''password'']) e (users s)) of
        None \<Rightarrow> (json_msg 400 ''Invalid credentials.'', s)
      | Some (i, user) \<Rightarrow>
          if \<not> emailVerified user
          then (json_msg 403 ''Please verify your email first.'', s)
          else (case bcrypt_compare L (body_password b) (password user) of
                  None \<Rightarrow> (json_msg 500 ''Server error during login.'', s)
                | Some isMatch \<Rightarrow>
                    if \<not> isMatch then (json_msg 400 ''Invalid credentials.'', s)
                    else (login_ok L C E [(''success'', JBool True)] i user, s)))"

definition router_logout :: "config \<Rightarrow> state \<Rightarrow> response \<times> state" where
  "router_logout C s =
     (\<lparr> status = 200,
        reply = Json_reply (JObj [(''success'', JBool True),
                                  (''message'', JStr ''Logged out successfully.'')]),
        cookie = Clear_token (production C) \<rparr>, s)"

definition router_me :: "lib \<Rightarrow> env \<Rightarrow> string option \<Rightarrow> state \<Rightarrow> response \<times> state" where
  "router_me L E token_cookie s =
     (case present token_cookie of
        None \<Rightarrow> (json_msg 401 ''Not authorized.'', s)
      | Some token \<Rightarrow>
         (case jwt_verify L token (now E) of
            None \<Rightarrow> (json_msg 401 ''Invalid or expired token.'', s)
          | Some decoded_id \<Rightarrow>
             (case findById (Minus [''password'']) decoded_id (users s) of
                None \<Rightarrow> (json_msg 404 ''User not found.'', s)
              | Some (i, user) \<Rightarrow>
                  (\<lparr> status = 200,
                     reply = Json_reply (JObj [(''success'', JBool True),
                                               (''user'', JObj (toJSON i user))]),
                     cookie = No_cookie \<rparr>, s))))"

section \<open>Runs\<close>

text \<open>A request to one of the endpoints, and the run of a list of requests, each with
  what it draws from the outside.\<close>

datatype request =
    Register body
  | Verify string
  | Resend body
  | Login body
  | Logout
  | Me "string option"
  | Router_register body
  | Router_verify string
  | Router_login body
  | Router_logout
  | Router_me "string option"

fun handle :: "lib \<Rightarrow> config \<Rightarrow> env \<Rightarrow> request \<Rightarrow> state \<Rightarrow> response \<times> state" where
  "handle L C E (Register b) s = registerUser L C E b s"
| "handle L C E (Verify t) s = verifyEmail L C E t s"
| "handle L C E (Resend b) s = resendVerification L C E b s"
| "handle L C E (Login b) s = loginUser L C E b s"
| "handle L C E Logout s = logoutUser C s"
| "handle L C E (Me c) s = getMe L E c s"
| "handle L C E (Router_register b) s = router_register L C E b s"
| "handle L C E (Router_verify t) s = router_verify L C E t s"
| "handle L C E (Router_login b) s = router_login L C E b s"
| "handle L C E Router_logout s = router_logout C s"
| "handle L C E (Router_me c) s = router_me L E c s"

fun run :: "lib \<Rightarrow> config \<Rightarrow> state \<Rightarrow> (env \<times> request) list \<Rightarrow> state" where
  "run L C s [] = s"
| "run L C s (er # rest) = run L C (snd (handle L C (fst er) (snd er) s)) rest"

section \<open>Properties of states and responses\<close>

text \<open>The keys of a JSON response, at any depth; none for a text or a redirect.\<close>

definition reply_keys :: "response \<Rightarrow> string list" where
  "reply_keys r = (case reply r of Json_reply j \<Rightarrow> json_keys j | _ \<Rightarrow> [])"



definition verified_at :: "state \<Rightarrow> nat \<Rightarrow> bool" where
  "verified_at s i = (i < length (users s) \<and> emailVerified (users s ! i))"

text \<open>The response of a verification request that succeeded.\<close>

fun verify_succeeded :: "config \<Rightarrow> request \<Rightarrow> response \<Rightarrow> bool" where
  "verify_succeeded C (Verify t) r =
     (r = redirect (tmpl (js_or (FRONTEND_URL C) localhost) @ ''/verify-success''))"
| "verify_succeeded C (Router_verify t) r =
     (r = redirect (tmpl (APP_BASE_URL C) @ ''/verify-success''))"
| "verify_succeeded C _ r = False"

text \<open>
  The requests that draw a random token.  \<open>crypto.randomBytes(32)\<close> is taken not to
  repeat itself and SHA-256 not to collide: in a \<open>fresh_run\<close>, the digest of each token
  drawn is the stored digest of no user at that moment.
\<close>

fun draws_token :: "request \<Rightarrow> bool" where
  "draws_token (Register b) = True"
| "draws_token (Resend b) = True"
| "draws_token (Router_register b) = True"
| "draws_token _ = False"

definition digest_unused :: "string \<Rightarrow> state \<Rightarrow> bool" where
  "digest_unused d s = (find_idx (\<lambda>u. verifyToken u = Some d) (users s) = None)"

fun fresh_run :: "lib \<Rightarrow> config \<Rightarrow> state \<Rightarrow> (env \<times> request) list \<Rightarrow> bool" where
  "fresh_run L C s [] = True"
| "fresh_run L C s (er # rest) =
     ((if draws_token (snd er)
       then digest_unused (sha256_hex L (randomBytes_hex (fst er))) s else True) \<and>
      fresh_run L C (snd (handle L C (fst er) (snd er) s)) rest)"

text \<open>No digest is stored for two users.\<close>

definition single_digests :: "state \<Rightarrow> bool" where
  "single_digests s =
     (\<forall>i<length (users s). \<forall>j<length (users s).
        verifyToken (users s ! i) \<noteq> None \<and> verifyToken (users s ! i) = verifyToken (users s ! j)
        \<longrightarrow> i = j)"

section \<open>Concrete instances\<close>

text \<open>
  Stand-ins for the libraries, a configuration and the requests of the example
  (register Ann, verify, log in), used to evaluate the handlers on concrete inputs.
  The stand-in hash writes the salt (four characters) in front of its input, as
  bcrypt's output carries its salt, and the stand-in comparison hashes the candidate
  under the salt of the stored hash.
\<close>

definition demo_lib :: lib where
  "demo_lib =
     \<lparr> bcrypt_hash = (\<lambda>s salt. salt @ ''$'' @ s),
       bcrypt_check = (\<lambda>s h. take 4 h @ ''$'' @ s = h),
       sha256_hex = (\<lambda>s. ''sha256:'' @ s),
       jwt_sign = (\<lambda>i t. ''jwt'' @ replicate i (CHR ''.'')),
       jwt_verify = (\<lambda>tok t. if take 3 tok = ''jwt'' then Some (length tok - 3) else None) \<rparr>"

definition demo_config :: config where
  "demo_config =
     \<lparr> FRONTEND_URL = None, APP_BASE_URL = None, API_BASE_URL = None, ADMIN_EMAIL = None,
       production = False \<rparr>"

definition env_at :: "nat \<Rightarrow> string \<Rightarrow> bool \<Rightarrow> env" where
  "env_at t tok ok =
     \<lparr> now = t, randomBytes_hex = tok, genSalt_handler = ''s001'', genSalt_hook = ''s002'',
       mail_ok = ok, admin_mail_ok = ok \<rparr>"

definition form :: "string option \<Rightarrow> string option \<Rightarrow> string option \<Rightarrow> body" where
  "form n e p =
     \<lparr> body_name = n, body_email = e, body_password = p,
       body_phone = None, body_occupation = None, body_source = None \<rparr>"

definition ann :: body where
  "ann = form (Some ''Ann'') (Some ''Ann@X.com'') (Some ''secret1'')"

definition ann_login :: body where
  "ann_login = form None (Some ''ann@x.com'') (Some ''secret1'')"

definition ann_wrong :: body where
  "ann_wrong = form None (Some ''ann@x.com'') (Some ''wrong'')"

definition ann_user :: "bool \<Rightarrow> string option \<Rightarrow> nat option \<Rightarrow> nat \<Rightarrow> user" where
  "ann_user v tok ex upd =
     \<lparr> name = ''Ann'', email = ''ann@x.com'', password = Some ''s002$s001$secret1'',
       phone = None, occupation = None, source = None, emailVerified = v,
       verifyToken = tok, verifyTokenExpires = ex, createdAt = 1000, updatedAt = upd \<rparr>"

definition ann_mail :: "string \<Rightarrow> mail" where
  "ann_mail url = \<lparr> rcpt = ''ann@x.com'', content = Verification_mail ''Ann'' url \<rparr>"

text \<open>The states after Ann registered at time 1000 with token \<open>aa\<close>, and after she
  verified at time 2000.\<close>

definition s_registered :: state where
  "s_registered =
     \<lparr> users = [ann_user False (Some ''sha256:aa'') (Some 86401000) 1000],
       mail_log = [ann_mail ''http://localhost:5173/verify/aa''] \<rparr>"

definition s_verified :: state where
  "s_verified =
     \<lparr> users = [ann_user True None None 2000],
       mail_log = [ann_mail ''http://localhost:5173/verify/aa''] \<rparr>"

text \<open>The state after Ann, registered, asked at time 5000 for a new link and drew the
  token \<open>bb\<close>.\<close>

definition s_resent :: state where
  "s_resent =
     \<lparr> users = [ann_user False (Some ''sha256:bb'') (Some 86405000) 5000],
       mail_log = [ann_mail ''http://localhost:5173/verify/aa'',
                   ann_mail ''http://localhost:5173/verify/bb''] \<rparr>"

definition ann_resend :: body where
  "ann_resend = form None (Some ''ann@x.com'') None"

section \<open>Overlapping requests\<close>











section \<open>Lemmas about the store and the handlers\<close>

lemma find_idx_Some: "find_idx P xs = Some i \<Longrightarrow> i < length xs \<and> P (xs ! i)"
  by (induction xs arbitrary: i) (auto split: if_splits)

lemma find_idx_None: "(find_idx P xs = None) = (\<forall>x\<in>set xs. \<not> P x)"
  by (induction xs) auto

lemma find_idx_None_nth: "find_idx P xs = None \<Longrightarrow> i < length xs \<Longrightarrow> \<not> P (xs ! i)"
  by (simp add: find_idx_None)

lemma find_idx_ex: "\<exists>x\<in>set xs. P x \<Longrightarrow> \<exists>i. find_idx P xs = Some i"
  using find_idx_None [of P xs] by (cases "find_idx P xs") auto

lemma lower_char_idem: "lower_char (lower_char c) = lower_char c"
  by (auto simp: lower_char_def Let_def)

lemma is_space_lower: "is_space (lower_char c) = is_space c"
  by (auto simp: lower_char_def is_space_def Let_def)

lemma dropWhile_space_lower:
  "dropWhile is_space (map lower_char s) = map lower_char (dropWhile is_space s)"
  by (induction s) (auto simp: is_space_lower)

lemma trim_lower: "trim (toLowerCase s) = toLowerCase (trim s)"
  by (simp add: trim_def toLowerCase_def dropWhile_space_lower rev_map)

lemma dropWhile_idem: "dropWhile P (dropWhile P s) = dropWhile P s"
  by (induction s) auto

lemma trim_idem: "trim (trim s) = trim s"
proof -
  define a where "a = dropWhile is_space s"
  define b where "b = dropWhile is_space (rev a)"
  have a_split: "a = rev b @ rev (takeWhile is_space (rev a))"
    unfolding b_def by (metis rev_append rev_rev_ident takeWhile_dropWhile_id)
  have "dropWhile is_space (rev b) = rev b"
  proof (cases "b = []")
    case True
    then show ?thesis by simp
  next
    case False
    then have "hd (rev b) = hd a"
      using a_split by (metis hd_append2 rev_is_Nil_conv)
    moreover have "a \<noteq> []"
      using False a_split by auto
    then have "\<not> is_space (hd a)"
      unfolding a_def by (rule hd_dropWhile)
    ultimately show ?thesis
      by (simp add: dropWhile_eq_self_iff)
  qed
  moreover have "dropWhile is_space b = b"
    unfolding b_def by (rule dropWhile_idem)
  ultimately show ?thesis
    by (simp add: trim_def a_def [symmetric] b_def [symmetric])
qed

lemma toLowerCase_idem: "toLowerCase (toLowerCase s) = toLowerCase s"
  by (simp add: toLowerCase_def lower_char_idem)

lemma set_email_idem: "set_email (set_email e) = set_email e"
  by (simp add: set_email_def trim_lower trim_idem toLowerCase_idem)

lemma set_email_norm: "set_email (trim (toLowerCase e)) = trim (toLowerCase e)"
  using set_email_idem [of e] by (simp add: set_email_def)

lemma pre_save_False: "pre_save L E False u = u"
  by (simp add: pre_save_def)

lemma registerUser_effect:
  "users (snd (registerUser L C E b s)) = users s \<or>
   (\<exists>u. users (snd (registerUser L C E b s)) = users s @ [u] \<and> \<not> emailVerified u \<and>
        verifyToken u = Some (sha256_hex L (randomBytes_hex E)) \<and>
        verifyTokenExpires u = Some (now E + day_ms))"
  by (simp add: registerUser_def Let_def insert_user_def save_paths_def pre_save_def sendMail_def
      new_user_def split: option.split sum.split db_error.split prod.split)


lemma router_register_effect:
  "users (snd (router_register L C E b s)) = users s \<or>
   (\<exists>u. users (snd (router_register L C E b s)) = users s @ [u] \<and> \<not> emailVerified u \<and>
        verifyToken u = Some (sha256_hex L (randomBytes_hex E)) \<and>
        verifyTokenExpires u = Some (now E + day_ms))"
  by (simp add: router_register_def Let_def insert_user_def pre_save_def sendMail_def
      new_user_def split: option.split sum.split prod.split)

lemma findOne_token_Some:
  "findOne_token sel h t us = Some (i, u) \<Longrightarrow>
     i < length us \<and> token_matches h t (us ! i) \<and> u = project sel (us ! i)"
  by (auto simp: findOne_token_def dest: find_idx_Some)

lemma findOne_token_None:
  "(findOne_token sel h t us = None) = (\<forall>u\<in>set us. \<not> token_matches h t u)"
  by (simp add: findOne_token_def find_idx_None)

lemma findOne_email_Some:
  "findOne_email sel q us = Some (i, u) \<Longrightarrow>
     i < length us \<and> email (us ! i) = set_email q \<and> u = project sel (us ! i)"
  by (auto simp: findOne_email_def dest: find_idx_Some)

lemma findOne_email_ex:
  "\<exists>u\<in>set us. email u = set_email q \<Longrightarrow>
     \<exists>i. i < length us \<and> email (us ! i) = set_email q \<and>
         findOne_email sel q us = Some (i, project sel (us ! i))"
proof -
  assume "\<exists>u\<in>set us. email u = set_email q"
  then obtain i where i: "find_idx (\<lambda>u. email u = set_email q) us = Some i"
    using find_idx_ex [of us "\<lambda>u. email u = set_email q"] by blast
  with find_idx_Some [OF i] show ?thesis
    by (auto simp: findOne_email_def)
qed

lemma emailVerified_project [simp]: "emailVerified (project sel u) = emailVerified u"
  by (simp add: project_def)

lemma verifyEmail_success:
  "fst (verifyEmail L C E t s) = redirect (tmpl (js_or (FRONTEND_URL C) localhost) @ ''/verify-success'') \<Longrightarrow>
   \<exists>i<length (users s). token_matches (sha256_hex L t) (now E) (users s ! i) \<and>
      snd (verifyEmail L C E t s) =
        s\<lparr> users := (users s)[i := (verified_paths (users s ! i))\<lparr> updatedAt := now E \<rparr>] \<rparr>"
  by (auto simp: verifyEmail_def Let_def send_text_def redirect_def save_paths_def pre_save_def
      split: if_splits option.splits dest: findOne_token_Some)

lemma verifyEmail_failure:
  "fst (verifyEmail L C E t s) \<noteq> redirect (tmpl (js_or (FRONTEND_URL C) localhost) @ ''/verify-success'') \<Longrightarrow>
   snd (verifyEmail L C E t s) = s"
  by (auto simp: verifyEmail_def Let_def split: if_splits option.splits)

lemma router_verify_success:
  "fst (router_verify L C E t s) = redirect (tmpl (APP_BASE_URL C) @ ''/verify-success'') \<Longrightarrow>
   \<exists>i<length (users s). token_matches (sha256_hex L t) (now E) (users s ! i) \<and>
      snd (router_verify L C E t s) =
        s\<lparr> users := (users s)[i := (verified_paths (users s ! i))\<lparr> updatedAt := now E \<rparr>] \<rparr>"
  by (auto simp: router_verify_def Let_def redirect_def save_paths_def pre_save_def
      split: option.splits dest: findOne_token_Some)

lemma router_verify_failure:
  "fst (router_verify L C E t s) \<noteq> redirect (tmpl (APP_BASE_URL C) @ ''/verify-success'') \<Longrightarrow>
   snd (router_verify L C E t s) = s"
  by (auto simp: router_verify_def Let_def split: option.splits)

lemma resendVerification_effect:
  "users (snd (resendVerification L C E b s)) = users s \<or>
   (\<exists>i<length (users s). \<not> emailVerified (users s ! i) \<and>
      users (snd (resendVerification L C E b s)) =
        (users s)[i := (users s ! i)\<lparr> verifyToken := Some (sha256_hex L (randomBytes_hex E)),
                                       verifyTokenExpires := Some (now E + day_ms),
                                       updatedAt := now E \<rparr>])"
proof (cases "present (body_email b)")
  case None
  then show ?thesis by (simp add: resendVerification_def)
next
  case e: (Some e)
  show ?thesis
  proof (cases "findOne_email Default_select (trim (toLowerCase e)) (users s)")
    case None
    with e show ?thesis by (simp add: resendVerification_def)
  next
    case (Some iu)
    obtain i u where iu: "iu = (i, u)" by (cases iu)
    from Some iu findOne_email_Some [of Default_select "trim (toLowerCase e)" "users s" i u]
    have i: "i < length (users s)" and u: "u = project Default_select (users s ! i)" by auto
    show ?thesis
    proof (cases "emailVerified u")
      case True
      with e Some iu show ?thesis by (simp add: resendVerification_def)
    next
      case False
      with e Some iu have "users (snd (resendVerification L C E b s)) =
          (users s)[i := (users s ! i)\<lparr> verifyToken := Some (sha256_hex L (randomBytes_hex E)),
                                         verifyTokenExpires := Some (now E + day_ms),
                                         updatedAt := now E \<rparr>]"
        by (simp add: resendVerification_def Let_def save_paths_def pre_save_def sendMail_def)
      with i False u show ?thesis by auto
    qed
  qed
qed

lemma loginUser_state: "snd (loginUser L C E b s) = s"
  by (simp add: loginUser_def Let_def split: option.split prod.split)

lemma router_login_state: "snd (router_login L C E b s) = s"
  by (simp add: router_login_def Let_def split: option.split prod.split)

lemma getMe_state: "snd (getMe L E c s) = s"
  by (simp add: getMe_def split: option.split prod.split)

lemma router_me_state: "snd (router_me L E c s) = s"
  by (simp add: router_me_def split: option.split prod.split)

lemma handle_effect:
  "users (snd (handle L C E r s)) = users s \<or>
   (draws_token r \<and>
    (\<exists>u. users (snd (handle L C E r s)) = users s @ [u] \<and> \<not> emailVerified u \<and>
         verifyToken u = Some (sha256_hex L (randomBytes_hex E)) \<and>
         verifyTokenExpires u = Some (now E + day_ms))) \<or>
   (verify_succeeded C r (fst (handle L C E r s)) \<and>
    (\<exists>i<length (users s).
       users (snd (handle L C E r s)) =
         (users s)[i := (verified_paths (users s ! i))\<lparr> updatedAt := now E \<rparr>])) \<or>
   (draws_token r \<and>
    (\<exists>i<length (users s). \<not> emailVerified (users s ! i) \<and>
       users (snd (handle L C E r s)) =
         (users s)[i := (users s ! i)\<lparr> verifyToken := Some (sha256_hex L (randomBytes_hex E)),
                                        verifyTokenExpires := Some (now E + day_ms),
                                        updatedAt := now E \<rparr>]))"
proof (cases r)
  case (Register b)
  then show ?thesis using registerUser_effect [of L C E b s] by auto
next
  case (Verify t)
  show ?thesis
  proof (cases "fst (verifyEmail L C E t s) =
      redirect (tmpl (js_or (FRONTEND_URL C) localhost) @ ''/verify-success'')")
    case True
    from verifyEmail_success [OF True] Verify True show ?thesis by auto
  next
    case False
    from verifyEmail_failure [OF False] Verify show ?thesis by simp
  qed
next
  case (Resend b)
  then show ?thesis using resendVerification_effect [of L C E b s] by auto
next
  case (Login b)
  then show ?thesis by (simp add: loginUser_state)
next
  case Logout
  then show ?thesis by (simp add: logoutUser_def)
next
  case (Me c)
  then show ?thesis by (simp add: getMe_state)
next
  case (Router_register b)
  then show ?thesis using router_register_effect [of L C E b s] by auto
next
  case (Router_verify t)
  show ?thesis
  proof (cases "fst (router_verify L C E t s) = redirect (tmpl (APP_BASE_URL C) @ ''/verify-success'')")
    case True
    from router_verify_success [OF True] Router_verify True show ?thesis by auto
  next
    case False
    from router_verify_failure [OF False] Router_verify show ?thesis by simp
  qed
next
  case (Router_login b)
  then show ?thesis by (simp add: router_login_state)
next
  case Router_logout
  then show ?thesis by (simp add: router_logout_def)
next
  case (Router_me c)
  then show ?thesis by (simp add: router_me_state)
qed

section \<open>What \<open>GET /me\<close> returns\<close>

lemma json_keys_toJSON: "json_keys (JObj (toJSON i u)) = map fst (toJSON i u)"
  by (simp add: toJSON_def opt_field_def split: option.split)

lemma toJSON_password: "password u = None \<Longrightarrow> ''password'' \<notin> fst ` set (toJSON i u)"
  by (auto simp: toJSON_def opt_field_def split: option.splits)

lemma toJSON_verifyToken: "verifyToken u = None \<Longrightarrow> ''verifyToken'' \<notin> fst ` set (toJSON i u)"
  by (auto simp: toJSON_def opt_field_def split: option.splits)

lemma toJSON_verifyTokenExpires:
  "verifyTokenExpires u = None \<Longrightarrow> ''verifyTokenExpires'' \<notin> fst ` set (toJSON i u)"
  by (auto simp: toJSON_def opt_field_def split: option.splits)

lemma project_Minus_hidden:
  "password (project (Minus (''password'' # fs)) u) = None \<and>
   verifyToken (project (Minus (''password'' # fs)) u) = None \<and>
   verifyTokenExpires (project (Minus (''password'' # fs)) u) = None"
  by (simp add: project_def excluded_def schema_unselected_def)

lemma getMe_200:
  "status (fst (getMe L E c s)) = 200 \<Longrightarrow>
   \<exists>i u. fst (getMe L E c s) =
     \<lparr> status = 200, reply = Json_reply (JObj (toJSON i
        (project (Minus [''password'', ''verifyToken'', ''verifyTokenExpires'']) u))), cookie = No_cookie \<rparr>"
  by (auto simp: getMe_def json_msg_def findById_def split: option.splits if_splits)

lemma router_me_200:
  "status (fst (router_me L E c s)) = 200 \<Longrightarrow>
   \<exists>i u. fst (router_me L E c s) =
     \<lparr> status = 200, reply = Json_reply (JObj [(''success'', JBool True), (''user'', JObj (toJSON i
        (project (Minus [''password'']) u)))]), cookie = No_cookie \<rparr>"
  by (auto simp: router_me_def json_msg_def findById_def split: option.splits if_splits)

lemma user_json_hides:
  assumes "password u = None" "verifyToken u = None" "verifyTokenExpires u = None"
  shows "''password'' \<notin> set (json_keys (JObj (toJSON i u)))"
    and "''verifyToken'' \<notin> set (json_keys (JObj (toJSON i u)))"
    and "''verifyTokenExpires'' \<notin> set (json_keys (JObj (toJSON i u)))"
  using assms by (auto simp: toJSON_def opt_field_def split: option.splits)

lemma wrapped_user_json_hides:
  assumes "password u = None" "verifyToken u = None" "verifyTokenExpires u = None"
  shows "''password'' \<notin> set (json_keys (JObj [(''success'', JBool True), (''user'', JObj (toJSON i u))]))"
    and "''verifyToken'' \<notin> set (json_keys (JObj [(''success'', JBool True), (''user'', JObj (toJSON i u))]))"
    and "''verifyTokenExpires'' \<notin> set (json_keys (JObj [(''success'', JBool True), (''user'', JObj (toJSON i u))]))"
  using assms by (auto simp: toJSON_def opt_field_def split: option.splits)

text \<open>
  Claim C10.  For every state, every cookie and every library, a response of \<open>GET /me\<close>
  with status 200 has no key \<open>password\<close>, \<open>verifyToken\<close> or \<open>verifyTokenExpires\<close>,
  at any depth of its JSON body.  This holds for the controller's \<open>getMe\<close>, which
  excludes the three paths by name, and for the router's \<open>GET /me\<close>, which excludes
  \<open>password\<close> by name and the token paths through \<open>select: false\<close> of the schema.
\<close>

theorem me_hides_secrets:
  "(status (fst (getMe L E c s)) = 200 \<longrightarrow>
      ''password'' \<notin> set (reply_keys (fst (getMe L E c s))) \<and>
      ''verifyToken'' \<notin> set (reply_keys (fst (getMe L E c s))) \<and>
      ''verifyTokenExpires'' \<notin> set (reply_keys (fst (getMe L E c s)))) \<and>
   (status (fst (router_me L E c s)) = 200 \<longrightarrow>
      ''password'' \<notin> set (reply_keys (fst (router_me L E c s))) \<and>
      ''verifyToken'' \<notin> set (reply_keys (fst (router_me L E c s))) \<and>
      ''verifyTokenExpires'' \<notin> set (reply_keys (fst (router_me L E c s))))"
proof (intro conjI impI)
  assume "status (fst (getMe L E c s)) = 200"
  then obtain i u where r: "fst (getMe L E c s) =
     \<lparr> status = 200, reply = Json_reply (JObj (toJSON i
        (project (Minus [''password'', ''verifyToken'', ''verifyTokenExpires'']) u))), cookie = No_cookie \<rparr>"
    using getMe_200 by blast
  have h: "password (project (Minus [''password'', ''verifyToken'', ''verifyTokenExpires'']) u) = None"
    "verifyToken (project (Minus [''password'', ''verifyToken'', ''verifyTokenExpires'']) u) = None"
    "verifyTokenExpires (project (Minus [''password'', ''verifyToken'', ''verifyTokenExpires'']) u) = None"
    using project_Minus_hidden [of "[''verifyToken'', ''verifyTokenExpires'']" u] by simp_all
  show "''password'' \<notin> set (reply_keys (fst (getMe L E c s)))"
    using user_json_hides(1) [OF h] by (simp add: r reply_keys_def del: json_keys.simps)
  show "''verifyToken'' \<notin> set (reply_keys (fst (getMe L E c s)))"
    using user_json_hides(2) [OF h] by (simp add: r reply_keys_def del: json_keys.simps)
  show "''verifyTokenExpires'' \<notin> set (reply_keys (fst (getMe L E c s)))"
    using user_json_hides(3) [OF h] by (simp add: r reply_keys_def del: json_keys.simps)
next
  assume "status (fst (router_me L E c s)) = 200"
  then obtain i u where r: "fst (router_me L E c s) =
     \<lparr> status = 200, reply = Json_reply (JObj [(''success'', JBool True), (''user'', JObj (toJSON i
        (project (Minus [''password'']) u)))]), cookie = No_cookie \<rparr>"
    using router_me_200 by blast
  have h: "password (project (Minus [''password'']) u) = None"
    "verifyToken (project (Minus [''password'']) u) = None"
    "verifyTokenExpires (project (Minus [''password'']) u) = None"
    using project_Minus_hidden [of "[]" u] by simp_all
  show "''password'' \<notin> set (reply_keys (fst (router_me L E c s)))"
    using wrapped_user_json_hides(1) [OF h] by (simp add: r reply_keys_def del: json_keys.simps)
  show "''verifyToken'' \<notin> set (reply_keys (fst (router_me L E c s)))"
    using wrapped_user_json_hides(2) [OF h] by (simp add: r reply_keys_def del: json_keys.simps)
  show "''verifyTokenExpires'' \<notin> set (reply_keys (fst (router_me L E c s)))"
    using wrapped_user_json_hides(3) [OF h] by (simp add: r reply_keys_def del: json_keys.simps)
qed

text \<open>
  The theorem at a stored user who has a password hash and a pending token: both
  handlers answer 200 and the three keys are absent.
\<close>

lemma demo_jwt: "jwt_verify demo_lib ''jwt'' t = Some 0"
  by (simp add: demo_lib_def)

lemma getMe_registered:
  "fst (getMe demo_lib (env_at 3000 [] True) (Some ''jwt'') s_registered) =
     \<lparr> status = 200,
       reply = Json_reply (JObj [(''_id'', JNum 0), (''name'', JStr ''Ann''),
         (''email'', JStr ''ann@x.com''), (''emailVerified'', JBool False),
         (''createdAt'', JNum 1000), (''updatedAt'', JNum 1000)]),
       cookie = No_cookie \<rparr>"
  by (simp add: getMe_def present_def demo_jwt findById_def s_registered_def project_def
      excluded_def schema_unselected_def toJSON_def opt_field_def ann_user_def)

lemma router_me_registered:
  "fst (router_me demo_lib (env_at 3000 [] True) (Some ''jwt'') s_registered) =
     \<lparr> status = 200,
       reply = Json_reply (JObj [(''success'', JBool True), (''user'',
         JObj [(''_id'', JNum 0), (''name'', JStr ''Ann''),
         (''email'', JStr ''ann@x.com''), (''emailVerified'', JBool False),
         (''createdAt'', JNum 1000), (''updatedAt'', JNum 1000)])]),
       cookie = No_cookie \<rparr>"
  by (simp add: router_me_def present_def demo_jwt findById_def s_registered_def project_def
      excluded_def schema_unselected_def toJSON_def opt_field_def ann_user_def)

theorem me_hides_secrets_witness:
  "password (users s_registered ! 0) = Some ''s002$s001$secret1'' \<and>
   verifyToken (users s_registered ! 0) = Some ''sha256:aa'' \<and>
   status (fst (getMe demo_lib (env_at 3000 [] True) (Some ''jwt'') s_registered)) = 200 \<and>
   ''password'' \<notin> set (reply_keys (fst (getMe demo_lib (env_at 3000 [] True) (Some ''jwt'') s_registered))) \<and>
   ''verifyToken'' \<notin> set (reply_keys (fst (getMe demo_lib (env_at 3000 [] True) (Some ''jwt'') s_registered))) \<and>
   ''verifyTokenExpires'' \<notin> set (reply_keys (fst (getMe demo_lib (env_at 3000 [] True) (Some ''jwt'') s_registered))) \<and>
   status (fst (router_me demo_lib (env_at 3000 [] True) (Some ''jwt'') s_registered)) = 200 \<and>
   ''password'' \<notin> set (reply_keys (fst (router_me demo_lib (env_at 3000 [] True) (Some ''jwt'') s_registered))) \<and>
   ''verifyToken'' \<notin> set (reply_keys (fst (router_me demo_lib (env_at 3000 [] True) (Some ''jwt'') s_registered))) \<and>
   ''verifyTokenExpires'' \<notin> set (reply_keys (fst (router_me demo_lib (env_at 3000 [] True) (Some ''jwt'') s_registered)))"
proof -
  have a: "status (fst (getMe demo_lib (env_at 3000 [] True) (Some ''jwt'') s_registered)) = 200"
    by (simp add: getMe_registered)
  have b: "status (fst (router_me demo_lib (env_at 3000 [] True) (Some ''jwt'') s_registered)) = 200"
    by (simp add: router_me_registered)
  have c: "password (users s_registered ! 0) = Some ''s002$s001$secret1''"
    "verifyToken (users s_registered ! 0) = Some ''sha256:aa''"
    by (simp_all add: s_registered_def ann_user_def)
  from a b c me_hides_secrets [of demo_lib "env_at 3000 [] True" "Some ''jwt''" s_registered]
  show ?thesis by blast
qed

section \<open>Requests that leave the state alone\<close>

lemma present_Some: "v \<noteq> [] \<Longrightarrow> present (Some v) = Some v"
  by (simp add: present_def)

lemma findOne_email_norm:
  assumes "\<exists>u\<in>set us. email u = trim (toLowerCase e)"
  shows "\<exists>i. i < length us \<and> email (us ! i) = trim (toLowerCase e) \<and>
           findOne_email sel (trim (toLowerCase e)) us = Some (i, project sel (us ! i)) \<and>
           findOne_email sel e us = Some (i, project sel (us ! i))"
proof -
  from assms have "\<exists>u\<in>set us. email u = set_email e"
    by (simp add: set_email_def)
  from findOne_email_ex [OF this, of sel]
  show ?thesis
    by (auto simp: findOne_email_def set_email_def set_email_norm [unfolded set_email_def])
qed

text \<open>
  Claim C7.  When the email of the request, lower-cased and trimmed, is that of a
  stored user and that user is verified, \<open>resendVerification\<close> answers 200 with
  ``Email already verified.'' and returns the state as it was: no stored path changes,
  so the token paths stay what they were, and nothing is handed to the mail transport.
\<close>

theorem resend_verified_noop:
  assumes "body_email b = Some e" and "e \<noteq> []"
    and "\<exists>u\<in>set (users s). email u = trim (toLowerCase e)"
    and "\<forall>u\<in>set (users s). email u = trim (toLowerCase e) \<longrightarrow> emailVerified u"
  shows "resendVerification L C E b s = (json_msg 200 ''Email already verified.'', s)"
proof -
  from findOne_email_norm [OF assms(3), of Default_select]
  obtain i where i: "i < length (users s)" "email (users s ! i) = trim (toLowerCase e)"
    "findOne_email Default_select (trim (toLowerCase e)) (users s)
       = Some (i, project Default_select (users s ! i))"
    by blast
  from i(1,2) assms(4) have "emailVerified (users s ! i)"
    by (meson nth_mem)
  with assms(1,2) i(3) show ?thesis
    by (simp add: resendVerification_def present_Some)
qed

lemma norm_Ann: "trim (toLowerCase ''Ann@X.com'') = ''ann@x.com''"
  by code_simp

lemma norm_ann: "trim (toLowerCase ''ann@x.com'') = ''ann@x.com''"
  by code_simp

theorem resend_verified_noop_witness:
  "emailVerified (users s_verified ! 0) \<and>
   resendVerification demo_lib demo_config (env_at 5000 ''bb'' True)
       (form None (Some ''Ann@X.com'') None) s_verified
     = (json_msg 200 ''Email already verified.'', s_verified)"
proof -
  have a: "body_email (form None (Some ''Ann@X.com'') None) = Some ''Ann@X.com''"
    by (simp add: form_def)
  have b: "''Ann@X.com'' \<noteq> []"
    by simp
  have c: "\<exists>u\<in>set (users s_verified). email u = trim (toLowerCase ''Ann@X.com'')"
    by (simp add: s_verified_def ann_user_def norm_Ann)
  have d: "\<forall>u\<in>set (users s_verified). email u = trim (toLowerCase ''Ann@X.com'') \<longrightarrow> emailVerified u"
    by (simp add: s_verified_def ann_user_def)
  have "emailVerified (users s_verified ! 0)"
    by (simp add: s_verified_def ann_user_def)
  with resend_verified_noop [OF a b c d] show ?thesis
    by simp
qed

text \<open>
  Claim C5.  When name, email and password are given and the email, lower-cased and
  trimmed, is already that of a stored user, registration answers 400 with ``User already
  exists.'' and returns the state as it was, in the controller and in the router.
\<close>

theorem register_duplicate_rejected:
  assumes "body_name b = Some n" and "n \<noteq> []"
    and "body_email b = Some e" and "e \<noteq> []"
    and "body_password b = Some p" and "p \<noteq> []"
    and "\<exists>u\<in>set (users s). email u = trim (toLowerCase e)"
  shows "registerUser L C E b s = (json_msg 400 ''User already exists.'', s) \<and>
         router_register L C E b s = (json_msg 400 ''User already exists.'', s)"
proof -
  from findOne_email_norm [OF assms(7), of Default_select]
  obtain i where i:
    "findOne_email Default_select (trim (toLowerCase e)) (users s)
       = Some (i, project Default_select (users s ! i))"
    "findOne_email Default_select e (users s) = Some (i, project Default_select (users s ! i))"
    by blast
  from assms(1-6) i(1) have "registerUser L C E b s = (json_msg 400 ''User already exists.'', s)"
    by (simp add: registerUser_def present_Some)
  moreover from assms(1-6) i(2)
  have "router_register L C E b s = (json_msg 400 ''User already exists.'', s)"
    by (simp add: router_register_def present_Some)
  ultimately show ?thesis ..
qed

lemma norm_ANN: "trim (toLowerCase ''  ANN@x.COM '') = ''ann@x.com''"
  by code_simp

theorem register_duplicate_rejected_witness:
  "registerUser demo_lib demo_config (env_at 7000 ''cc'' True)
       (form (Some ''Anna'') (Some ''  ANN@x.COM '') (Some ''other12'')) s_registered
     = (json_msg 400 ''User already exists.'', s_registered) \<and>
   router_register demo_lib demo_config (env_at 7000 ''cc'' True)
       (form (Some ''Anna'') (Some ''  ANN@x.COM '') (Some ''other12'')) s_registered
     = (json_msg 400 ''User already exists.'', s_registered) \<and>
   length (users s_registered) = 1"
proof -
  have a: "body_name (form (Some ''Anna'') (Some ''  ANN@x.COM '') (Some ''other12'')) = Some ''Anna''"
    and b: "body_email (form (Some ''Anna'') (Some ''  ANN@x.COM '') (Some ''other12'')) = Some ''  ANN@x.COM ''"
    and c: "body_password (form (Some ''Anna'') (Some ''  ANN@x.COM '') (Some ''other12'')) = Some ''other12''"
    by (simp_all add: form_def)
  have d: "\<exists>u\<in>set (users s_registered). email u = trim (toLowerCase ''  ANN@x.COM '')"
    by (simp add: s_registered_def ann_user_def norm_ANN)
  have "length (users s_registered) = 1"
    by (simp add: s_registered_def)
  with register_duplicate_rejected [OF a _ b _ c _ d, of demo_lib demo_config "env_at 7000 ''cc'' True"]
  show ?thesis by simp
qed

text \<open>
  Claim C2, as the code has it.  For a stored user whose email is not verified, login
  answers 403 whatever password is supplied, right or wrong, and leaves the state alone:
  both handlers test \<open>emailVerified\<close> before they compare the password.
\<close>

theorem login_unverified_forbidden:
  assumes "body_email b = Some e" and "e \<noteq> []"
    and "body_password b = Some p" and "p \<noteq> []"
    and "\<exists>u\<in>set (users s). email u = trim (toLowerCase e)"
    and "\<forall>u\<in>set (users s). email u = trim (toLowerCase e) \<longrightarrow> \<not> emailVerified u"
  shows "loginUser L C E b s = (json_msg 403 ''Please verify your email to continue.'', s) \<and>
         router_login L C E b s = (json_msg 403 ''Please verify your email first.'', s)"
proof -
  from findOne_email_norm [OF assms(5), of Default_select]
  obtain i where i: "i < length (users s)" "email (users s ! i) = trim (toLowerCase e)"
    "findOne_email Default_select (trim (toLowerCase e)) (users s)
       = Some (i, project Default_select (users s ! i))"
    by blast
  from findOne_email_norm [OF assms(5), of "Plus [''password'']"]
  obtain j where j: "j < length (users s)" "email (users s ! j) = trim (toLowerCase e)"
    "findOne_email (Plus [''password'']) e (users s)
       = Some (j, project (Plus [''password'']) (users s ! j))"
    by blast
  from i(1,2) assms(6) have "\<not> emailVerified (users s ! i)"
    by (meson nth_mem)
  with assms(1-4) i(3)
  have "loginUser L C E b s = (json_msg 403 ''Please verify your email to continue.'', s)"
    by (simp add: loginUser_def present_Some)
  moreover from j(1,2) assms(6) have "\<not> emailVerified (users s ! j)"
    by (meson nth_mem)
  with assms(1) j(3)
  have "router_login L C E b s = (json_msg 403 ''Please verify your email first.'', s)"
    by (simp add: router_login_def)
  ultimately show ?thesis ..
qed

theorem login_unverified_forbidden_witness:
  "\<not> emailVerified (users s_registered ! 0) \<and>
   loginUser demo_lib demo_config (env_at 3000 [] True) ann_login s_registered
     = (json_msg 403 ''Please verify your email to continue.'', s_registered) \<and>
   router_login demo_lib demo_config (env_at 3000 [] True) ann_login s_registered
     = (json_msg 403 ''Please verify your email first.'', s_registered)"
proof -
  have a: "body_email ann_login = Some ''ann@x.com''"
    and b: "body_password ann_login = Some ''secret1''"
    by (simp_all add: ann_login_def form_def)
  have c: "\<exists>u\<in>set (users s_registered). email u = trim (toLowerCase ''ann@x.com'')"
    by (simp add: s_registered_def ann_user_def norm_ann)
  have d: "\<forall>u\<in>set (users s_registered). email u = trim (toLowerCase ''ann@x.com'') \<longrightarrow> \<not> emailVerified u"
    by (simp add: s_registered_def ann_user_def)
  have "\<not> emailVerified (users s_registered ! 0)"
    by (simp add: s_registered_def ann_user_def)
  with login_unverified_forbidden [OF a _ b _ c d, of demo_lib demo_config "env_at 3000 [] True"]
  show ?thesis by simp
qed

text \<open>
  The claim as the specification words it fails: Ann is stored, not verified, and the
  password \<open>wrong\<close> does not match her stored hash, yet both handlers answer 403, not
  400.
\<close>

theorem login_wrong_password_unverified_counterexample:
  "\<not> emailVerified (users s_registered ! 0) \<and>
   password (users s_registered ! 0) = Some ''s002$s001$secret1'' \<and>
   bcrypt_compare demo_lib (body_password ann_wrong) (Some ''s002$s001$secret1'') = Some False \<and>
   status (fst (loginUser demo_lib demo_config (env_at 3000 [] True) ann_wrong s_registered)) = 403 \<and>
   status (fst (router_login demo_lib demo_config (env_at 3000 [] True) ann_wrong s_registered)) = 403"
  by (simp add: loginUser_def router_login_def present_def ann_wrong_def form_def norm_ann
      findOne_email_def set_email_def s_registered_def ann_user_def project_def json_msg_def
      bcrypt_compare_def demo_lib_def)

section \<open>Verification of a token\<close>

lemma token_matches_iff:
  "token_matches h t u = (verifyToken u = Some h \<and> (\<exists>x. verifyTokenExpires u = Some x \<and> t < x))"
  by (auto simp: token_matches_def split: option.splits)

lemma verify_page_neq: "redirect (p @ ''/verify-failed'') \<noteq> redirect (p @ ''/verify-success'')"
  by (simp add: redirect_def)

text \<open>
  Claim C4.  A verification that answers with the redirect to the success page found a
  stored user whose digest is the digest of the presented token and whose
  \<open>verifyTokenExpires\<close> is strictly later than the clock of the call.  When every user
  with that digest has an expiry at or before the clock, the call fails and the state is
  unchanged: the controller answers 400 (``Invalid or expired verification link.'' for a
  non-empty token), the router redirects to the failure page.
\<close>

theorem verify_needs_unexpired_match:
  "(fst (verifyEmail L C E t s) = redirect (tmpl (js_or (FRONTEND_URL C) localhost) @ ''/verify-success'')
      \<longrightarrow> (\<exists>u\<in>set (users s). verifyToken u = Some (sha256_hex L t) \<and>
                (\<exists>x. verifyTokenExpires u = Some x \<and> now E < x))) \<and>
   (fst (router_verify L C E t s) = redirect (tmpl (APP_BASE_URL C) @ ''/verify-success'')
      \<longrightarrow> (\<exists>u\<in>set (users s). verifyToken u = Some (sha256_hex L t) \<and>
                (\<exists>x. verifyTokenExpires u = Some x \<and> now E < x))) \<and>
   ((\<forall>u\<in>set (users s). verifyToken u = Some (sha256_hex L t) \<longrightarrow>
        (\<forall>x. verifyTokenExpires u = Some x \<longrightarrow> x \<le> now E))
      \<longrightarrow> status (fst (verifyEmail L C E t s)) = 400 \<and>
          snd (verifyEmail L C E t s) = s \<and>
          (t \<noteq> [] \<longrightarrow> verifyEmail L C E t s =
             (send_text 400 ''Invalid or expired verification link.'', s)) \<and>
          router_verify L C E t s = (redirect (tmpl (APP_BASE_URL C) @ ''/verify-failed''), s))"
proof (intro conjI impI)
  assume "fst (verifyEmail L C E t s) =
    redirect (tmpl (js_or (FRONTEND_URL C) localhost) @ ''/verify-success'')"
  from verifyEmail_success [OF this]
  show "\<exists>u\<in>set (users s). verifyToken u = Some (sha256_hex L t) \<and>
          (\<exists>x. verifyTokenExpires u = Some x \<and> now E < x)"
    by (metis nth_mem token_matches_iff)
next
  assume "fst (router_verify L C E t s) = redirect (tmpl (APP_BASE_URL C) @ ''/verify-success'')"
  from router_verify_success [OF this]
  show "\<exists>u\<in>set (users s). verifyToken u = Some (sha256_hex L t) \<and>
          (\<exists>x. verifyTokenExpires u = Some x \<and> now E < x)"
    by (metis nth_mem token_matches_iff)
next
  assume "\<forall>u\<in>set (users s). verifyToken u = Some (sha256_hex L t) \<longrightarrow>
            (\<forall>x. verifyTokenExpires u = Some x \<longrightarrow> x \<le> now E)"
  then have "\<forall>u\<in>set (users s). \<not> token_matches (sha256_hex L t) (now E) u"
    by (auto simp: token_matches_iff)
  then have none: "findOne_token Default_select (sha256_hex L t) (now E) (users s) = None"
    by (simp add: findOne_token_None)
  show "status (fst (verifyEmail L C E t s)) = 400"
    by (simp add: verifyEmail_def none send_text_def)
  show "snd (verifyEmail L C E t s) = s"
    by (simp add: verifyEmail_def none)
  show "verifyEmail L C E t s = (send_text 400 ''Invalid or expired verification link.'', s)"
    if "t \<noteq> []"
    using that by (simp add: verifyEmail_def none)
  show "router_verify L C E t s = (redirect (tmpl (APP_BASE_URL C) @ ''/verify-failed''), s)"
    by (simp add: router_verify_def none)
qed

text \<open>
  Ann's token expires at 86401000.  Presented at time 2000 it is accepted; presented at
  the expiry instant itself it is refused by both handlers, although the digest matches.
\<close>

lemma verify_ann:
  "verifyEmail demo_lib demo_config (env_at 2000 [] True) ''aa'' s_registered =
     (redirect ''http://localhost:5173/verify-success'', s_verified)"
  by (simp add: verifyEmail_def findOne_token_def token_matches_def s_registered_def s_verified_def
      ann_user_def demo_lib_def demo_config_def env_at_def save_paths_def pre_save_def
      verified_paths_def js_or_def present_def tmpl_def localhost_def)

theorem verify_needs_unexpired_match_witness:
  "fst (verifyEmail demo_lib demo_config (env_at 2000 [] True) ''aa'' s_registered) =
     redirect ''http://localhost:5173/verify-success'' \<and>
   (\<exists>u\<in>set (users s_registered). verifyToken u = Some ''sha256:aa'' \<and>
      (\<exists>x. verifyTokenExpires u = Some x \<and> 2000 < x)) \<and>
   verifyToken (users s_registered ! 0) = Some (sha256_hex demo_lib ''aa'') \<and>
   verifyTokenExpires (users s_registered ! 0) = Some 86401000 \<and>
   verifyEmail demo_lib demo_config (env_at 86401000 [] True) ''aa'' s_registered =
     (send_text 400 ''Invalid or expired verification link.'', s_registered) \<and>
   router_verify demo_lib demo_config (env_at 86401000 [] True) ''aa'' s_registered =
     (redirect ''undefined/verify-failed'', s_registered)"
proof -
  have ok: "fst (verifyEmail demo_lib demo_config (env_at 2000 [] True) ''aa'' s_registered) =
      redirect (tmpl (js_or (FRONTEND_URL demo_config) localhost) @ ''/verify-success'')"
  proof -
    have "tmpl (js_or (FRONTEND_URL demo_config) localhost) @ ''/verify-success'' =
        ''http://localhost:5173/verify-success''"
      by (simp add: demo_config_def js_or_def present_def tmpl_def localhost_def)
    then show ?thesis
      by (simp only: verify_ann fst_conv)
  qed
  have late: "\<forall>u\<in>set (users s_registered).
      verifyToken u = Some (sha256_hex demo_lib ''aa'') \<longrightarrow>
      (\<forall>x. verifyTokenExpires u = Some x \<longrightarrow> x \<le> now (env_at 86401000 [] True))"
    by (simp add: s_registered_def ann_user_def env_at_def)
  have stored: "verifyToken (users s_registered ! 0) = Some (sha256_hex demo_lib ''aa'')"
    "verifyTokenExpires (users s_registered ! 0) = Some 86401000"
    by (simp_all add: s_registered_def ann_user_def demo_lib_def)
  have eval: "now (env_at 2000 [] True) = 2000" "sha256_hex demo_lib ''aa'' = ''sha256:aa''"
    "tmpl (APP_BASE_URL demo_config) = ''undefined''"
    by (simp_all add: env_at_def demo_lib_def demo_config_def tmpl_def)
  from verify_needs_unexpired_match [of demo_lib demo_config "env_at 2000 [] True" "''aa''" s_registered]
    ok
  have a: "\<exists>u\<in>set (users s_registered). verifyToken u = Some ''sha256:aa'' \<and>
      (\<exists>x. verifyTokenExpires u = Some x \<and> 2000 < x)"
    by (simp add: eval)
  from verify_needs_unexpired_match
    [of demo_lib demo_config "env_at 86401000 [] True" "''aa''" s_registered] late
  have b: "verifyEmail demo_lib demo_config (env_at 86401000 [] True) ''aa'' s_registered =
     (send_text 400 ''Invalid or expired verification link.'', s_registered) \<and>
   router_verify demo_lib demo_config (env_at 86401000 [] True) ''aa'' s_registered =
     (redirect ''undefined/verify-failed'', s_registered)"
    by (simp add: eval)
  from ok a b stored show ?thesis
    by (simp add: verify_ann)
qed

section \<open>Failure of the mail transport\<close>

lemma registerUser_ignores_mail:
  "registerUser L C (E\<lparr> mail_ok := m, admin_mail_ok := a \<rparr>) b s = registerUser L C E b s"
  by (simp add: registerUser_def Let_def insert_user_def save_paths_def pre_save_def new_user_def
      split: option.split sum.split db_error.split prod.split)

lemma resend_state_ignores_mail:
  "snd (resendVerification L C (E\<lparr> mail_ok := m \<rparr>) b s) = snd (resendVerification L C E b s)"
  by (simp add: resendVerification_def Let_def save_paths_def pre_save_def
      split: option.split prod.split)

lemma resend_mail_failure:
  "fst (resendVerification L C (E\<lparr> mail_ok := True \<rparr>) b s) =
       json_msg 200 ''Verification email resent successfully.'' \<Longrightarrow>
   fst (resendVerification L C (E\<lparr> mail_ok := False \<rparr>) b s) =
       json_msg 500 ''Server error during resend.''"
  by (auto simp: resendVerification_def Let_def json_msg_def split: option.splits prod.splits if_splits)

lemma router_register_users_ignore_mail:
  "users (snd (router_register L C (E\<lparr> mail_ok := m, admin_mail_ok := a \<rparr>) b s)) =
   users (snd (router_register L C E b s))"
  by (simp add: router_register_def Let_def insert_user_def pre_save_def new_user_def sendMail_def
      split: option.split sum.split prod.split)

lemma router_register_mail_failure:
  "status (fst (router_register L C (E\<lparr> mail_ok := True, admin_mail_ok := True \<rparr>) b s)) = 201 \<Longrightarrow>
   fst (router_register L C (E\<lparr> mail_ok := False \<rparr>) b s) =
       json_msg 500 ''Server error during registration.''"
  by (auto simp: router_register_def Let_def json_msg_def split: option.splits sum.splits prod.splits)


text \<open>
  Claim C6, as the code has it.  The controller's \<open>registerUser\<close> does not wait for its
  emails: its response and the state it returns are the same whatever becomes of the two
  sends.  \<open>resendVerification\<close> awaits the send inside \<open>try\<close>: where the request would
  have answered ``Verification email resent successfully.'' had the mail been delivered,
  a failed delivery makes the response 500, while the state is that of the successful
  request (the new token is kept).
\<close>

theorem mail_failure_effects:
  "registerUser L C (E\<lparr> mail_ok := m, admin_mail_ok := a \<rparr>) b s = registerUser L C E b s \<and>
   snd (resendVerification L C (E\<lparr> mail_ok := False \<rparr>) b s) =
     snd (resendVerification L C (E\<lparr> mail_ok := True \<rparr>) b s) \<and>
   (fst (resendVerification L C (E\<lparr> mail_ok := True \<rparr>) b s) =
        json_msg 200 ''Verification email resent successfully.''
      \<longrightarrow> fst (resendVerification L C (E\<lparr> mail_ok := False \<rparr>) b s) =
        json_msg 500 ''Server error during resend.'')"
proof (intro conjI impI)
  show "registerUser L C (E\<lparr> mail_ok := m, admin_mail_ok := a \<rparr>) b s = registerUser L C E b s"
    by (rule registerUser_ignores_mail)
  show "snd (resendVerification L C (E\<lparr> mail_ok := False \<rparr>) b s) =
      snd (resendVerification L C (E\<lparr> mail_ok := True \<rparr>) b s)"
    by (simp add: resend_state_ignores_mail)
qed (auto dest: resend_mail_failure)

lemma match_email_ann: "match_email ''ann@x.com''"
  by code_simp

lemma trim_Ann: "trim ''Ann'' = ''Ann''"
  by code_simp

lemma set_email_Ann: "set_email ''Ann@X.com'' = ''ann@x.com''"
  by code_simp

lemma set_email_ann: "set_email ''ann@x.com'' = ''ann@x.com''"
  by code_simp

lemma validate_ann:
  "name u = ''Ann'' \<Longrightarrow> email u = ''ann@x.com'' \<Longrightarrow> password u = Some ''s001$secret1'' \<Longrightarrow>
   phone u = None \<Longrightarrow> occupation u = None \<Longrightarrow> source u = None \<Longrightarrow> validate u"
  by (simp add: validate_def match_email_ann present_def opt_ok_def)

lemma register_ann:
  "registerUser demo_lib demo_config (env_at 1000 ''aa'' ok) ann init_state =
     (json_msg 201 ''User registered. Please check your email to verify your account.'',
      s_registered)"
  by (simp add: registerUser_def Let_def present_def ann_def form_def norm_Ann trim_Ann
      findOne_email_def init_state_def insert_user_def validate_ann new_user_def set_name_def
      set_email_ann pre_save_def save_paths_def sendMail_def demo_lib_def demo_config_def
      env_at_def day_ms_def js_or_def tmpl_def localhost_def s_registered_def ann_user_def
      ann_mail_def)

lemma resend_ann:
  "resendVerification demo_lib demo_config (env_at 5000 ''bb'' ok) ann_resend s_registered =
     (if ok then json_msg 200 ''Verification email resent successfully.''
      else json_msg 500 ''Server error during resend.'', s_resent)"
  by (simp add: resendVerification_def Let_def present_def ann_resend_def form_def norm_ann
      findOne_email_def set_email_ann project_def save_paths_def pre_save_def sendMail_def
      demo_lib_def demo_config_def env_at_def day_ms_def js_or_def tmpl_def localhost_def
      s_registered_def s_resent_def ann_user_def ann_mail_def)

lemma router_register_ann:
  "snd (router_register demo_lib demo_config (env_at 1000 ''aa'' ok) ann init_state) =
      \<lparr> users = [ann_user False (Some ''sha256:aa'') (Some 86401000) 1000],
        mail_log = [\<lparr> rcpt = ''Ann@X.com'',
                      content = Verification_mail ''Ann'' ''undefined/api/auth/verify/aa'' \<rparr>] \<rparr>"
  "status (fst (router_register demo_lib demo_config (env_at 1000 ''aa'' ok) ann init_state)) =
      (if ok then 201 else 500)"
  by (simp_all add: router_register_def Let_def present_def ann_def form_def
      findOne_email_def init_state_def insert_user_def validate_ann new_user_def set_name_def
      trim_Ann set_email_Ann pre_save_def sendMail_def demo_lib_def demo_config_def
      env_at_def day_ms_def tmpl_def ann_user_def json_msg_def)

lemma env_at_True: "(env_at t tok True)\<lparr> mail_ok := True \<rparr> = env_at t tok True"
  "(env_at t tok True)\<lparr> mail_ok := True, admin_mail_ok := True \<rparr> = env_at t tok True"
  "(env_at t tok True)\<lparr> mail_ok := False, admin_mail_ok := False \<rparr> = env_at t tok False"
  "(env_at t tok True)\<lparr> admin_mail_ok := True \<rparr> = env_at t tok True"
  by (simp_all add: env_at_def)

text \<open>
  The theorem at Ann's requests.  Her registration through the controller answers 201
  with both sends failing.  Her request for a new link answers 500 when the send fails,
  and the new token is stored.
\<close>

theorem mail_failure_effects_witness:
  "registerUser demo_lib demo_config (env_at 1000 ''aa'' False) ann init_state =
     (json_msg 201 ''User registered. Please check your email to verify your account.'',
      s_registered) \<and>
   fst (resendVerification demo_lib demo_config ((env_at 5000 ''bb'' True)\<lparr> mail_ok := False \<rparr>)
          ann_resend s_registered) = json_msg 500 ''Server error during resend.'' \<and>
   snd (resendVerification demo_lib demo_config ((env_at 5000 ''bb'' True)\<lparr> mail_ok := False \<rparr>)
          ann_resend s_registered) = s_resent"
proof -
  note reg = mail_failure_effects
    [where L = demo_lib and C = demo_config and E = "env_at 1000 ''aa'' True" and m = False
       and a = False and b = ann and s = init_state]
  note res = mail_failure_effects
    [where L = demo_lib and C = demo_config and E = "env_at 5000 ''bb'' True" and m = False
       and a = False and b = ann_resend and s = s_registered]
  have sent: "fst (resendVerification demo_lib demo_config
      ((env_at 5000 ''bb'' True)\<lparr> mail_ok := True \<rparr>) ann_resend s_registered) =
      json_msg 200 ''Verification email resent successfully.''"
    by (simp add: env_at_True resend_ann)
  from reg have "registerUser demo_lib demo_config (env_at 1000 ''aa'' False) ann init_state =
     (json_msg 201 ''User registered. Please check your email to verify your account.'',
      s_registered)"
    by (simp add: env_at_True register_ann)
  moreover from res sent
  have "fst (resendVerification demo_lib demo_config ((env_at 5000 ''bb'' True)\<lparr> mail_ok := False \<rparr>)
          ann_resend s_registered) = json_msg 500 ''Server error during resend.''"
    by blast
  moreover from res
  have "snd (resendVerification demo_lib demo_config ((env_at 5000 ''bb'' True)\<lparr> mail_ok := False \<rparr>)
          ann_resend s_registered) = s_resent"
    by (simp add: env_at_True resend_ann)
  ultimately show ?thesis
    by blast
qed

text \<open>
  The claim as the specification words it fails.  Ann asks for a new link while the mail
  transport is down: the new token is stored in place of the old one, and the response
  is 500.
\<close>

theorem mail_failure_is_request_error_counterexample:
  "resendVerification demo_lib demo_config (env_at 5000 ''bb'' False) ann_resend s_registered =
     (json_msg 500 ''Server error during resend.'', s_resent) \<and>
   status (json_msg 500 ''Server error during resend.'') = 500 \<and>
   verifyToken (users s_registered ! 0) = Some ''sha256:aa'' \<and>
   verifyToken (users s_resent ! 0) = Some ''sha256:bb''"
proof -
  have "verifyToken (users s_registered ! 0) = Some ''sha256:aa''"
    and "verifyToken (users s_resent ! 0) = Some ''sha256:bb''"
    by (simp_all add: s_registered_def s_resent_def ann_user_def)
  then show ?thesis
    by (simp add: resend_ann json_msg_def)
qed

text \<open>
  The router's \<open>POST /register\<close> awaits its sends as well: with the transport down, Ann's
  registration there stores her record and answers 500.
\<close>

lemma router_register_ann_mail_down:
  "status (fst (router_register demo_lib demo_config (env_at 1000 ''aa'' False) ann init_state)) = 500 \<and>
   users (snd (router_register demo_lib demo_config (env_at 1000 ''aa'' False) ann init_state)) =
     [ann_user False (Some ''sha256:aa'') (Some 86401000) 1000]"
  by (simp add: router_register_ann)

section \<open>Invariants of the token lifecycle\<close>






subsection \<open>Writes that land between a read and a save\<close>






lemma users_sendMail [simp]: "users (sendMail m s) = users s"
  by (simp add: sendMail_def)












subsection \<open>The verified flag\<close>

lemma verified_at_step: "verified_at s i \<Longrightarrow> verified_at (snd (handle L C E r s)) i"
  using handle_effect [of L C E r s]
  by (auto simp: verified_at_def nth_append nth_list_update verified_paths_def)

lemma verified_at_run: "verified_at s i \<Longrightarrow> verified_at (run L C s reqs) i"
  by (induction reqs arbitrary: s) (simp_all add: verified_at_step)

lemma new_user_unverified:
  "length (users s) \<le> i \<Longrightarrow> i < length (users (snd (handle L C E r s))) \<Longrightarrow>
   \<not> emailVerified (users (snd (handle L C E r s)) ! i)"
  using handle_effect [of L C E r s]
  by (auto simp: nth_append)

lemma verified_only_by_verify:
  "\<not> verified_at s i \<Longrightarrow> verified_at (snd (handle L C E r s)) i \<Longrightarrow>
   verify_succeeded C r (fst (handle L C E r s))"
  using handle_effect [of L C E r s]
  by (auto simp: verified_at_def nth_append nth_list_update split: if_splits)

text \<open>
  Claim C9.  For the user at any position \<open>i\<close> of the collection: once \<open>emailVerified\<close>
  holds it holds after every further sequence of requests; a user that a request creates
  has it false; and a request after which it holds, when it did not hold before, is a
  verification that answered with the redirect to the success page.  So the flag goes
  from false to true at most once and never back.
\<close>

theorem emailVerified_monotone:
  "(verified_at s i \<longrightarrow> verified_at (run L C s reqs) i) \<and>
   (length (users s) \<le> i \<and> i < length (users (snd (handle L C E r s)))
      \<longrightarrow> \<not> emailVerified (users (snd (handle L C E r s)) ! i)) \<and>
   (\<not> verified_at s i \<and> verified_at (snd (handle L C E r s)) i
      \<longrightarrow> verify_succeeded C r (fst (handle L C E r s)))"
  using verified_at_run new_user_unverified verified_only_by_verify by blast


text \<open>
  The theorem at Ann: verified, she stays verified through a request for a new link, a
  login and a second registration of her email; her record is created unverified; and the
  request that verified her is the verification of her token.
\<close>

theorem emailVerified_monotone_witness:
  "verified_at s_verified 0 \<and>
   verified_at (run demo_lib demo_config s_verified
     [(env_at 5000 ''bb'' True, Resend ann_resend), (env_at 6000 [] True, Login ann_login),
      (env_at 7000 ''cc'' True, Router_register ann)]) 0 \<and>
   \<not> emailVerified (users (snd (handle demo_lib demo_config (env_at 1000 ''aa'' True)
       (Register ann) init_state)) ! 0) \<and>
   \<not> verified_at s_registered 0 \<and>
   verify_succeeded demo_config (Verify ''aa'')
     (fst (handle demo_lib demo_config (env_at 2000 [] True) (Verify ''aa'') s_registered))"
proof -
  have a: "verified_at s_verified 0"
    by (simp add: verified_at_def s_verified_def ann_user_def)
  have d: "\<not> verified_at s_registered 0"
    by (simp add: verified_at_def s_registered_def ann_user_def)
  have c: "length (users init_state) \<le> 0 \<and>
      0 < length (users (snd (handle demo_lib demo_config (env_at 1000 ''aa'' True)
        (Register ann) init_state)))"
  proof
    show "length (users init_state) \<le> 0"
      by (simp add: init_state_def)
    show "0 < length (users (snd (handle demo_lib demo_config (env_at 1000 ''aa'' True)
        (Register ann) init_state)))"
      by (simp add: register_ann s_registered_def)
  qed
  have e: "verified_at (snd (handle demo_lib demo_config (env_at 2000 [] True)
        (Verify ''aa'') s_registered)) 0"
    by (simp add: verify_ann a)
  from a emailVerified_monotone [where s = s_verified and i = 0 and L = demo_lib
      and C = demo_config and reqs = "[(env_at 5000 ''bb'' True, Resend ann_resend),
        (env_at 6000 [] True, Login ann_login), (env_at 7000 ''cc'' True, Router_register ann)]"]
  have "verified_at (run demo_lib demo_config s_verified
     [(env_at 5000 ''bb'' True, Resend ann_resend), (env_at 6000 [] True, Login ann_login),
      (env_at 7000 ''cc'' True, Router_register ann)]) 0"
    by blast
  moreover from c emailVerified_monotone [where s = init_state and i = 0 and L = demo_lib
      and C = demo_config and E = "env_at 1000 ''aa'' True" and r = "Register ann"]
  have "\<not> emailVerified (users (snd (handle demo_lib demo_config (env_at 1000 ''aa'' True)
       (Register ann) init_state)) ! 0)"
    by blast
  moreover from d e emailVerified_monotone [where s = s_registered and i = 0 and L = demo_lib
      and C = demo_config and E = "env_at 2000 [] True" and r = "Verify ''aa''"]
  have "verify_succeeded demo_config (Verify ''aa'')
     (fst (handle demo_lib demo_config (env_at 2000 [] True) (Verify ''aa'') s_registered))"
    by blast
  ultimately show ?thesis
    using a d by blast
qed

section \<open>A token is used once\<close>

lemma digest_unused_iff: "digest_unused d s = (\<forall>u\<in>set (users s). verifyToken u \<noteq> Some d)"
  by (simp add: digest_unused_def find_idx_None)

lemma single_digests_step:
  assumes "single_digests s"
    and "draws_token r \<longrightarrow> digest_unused (sha256_hex L (randomBytes_hex E)) s"
  shows "single_digests (snd (handle L C E r s))"
proof -
  from handle_effect [of L C E r s] show ?thesis
  proof (elim disjE conjE exE)
    assume "users (snd (handle L C E r s)) = users s"
    with assms(1) show ?thesis by (simp add: single_digests_def)
  next
    fix u
    assume "draws_token r" and u: "users (snd (handle L C E r s)) = users s @ [u]"
      "verifyToken u = Some (sha256_hex L (randomBytes_hex E))"
    with assms(2) have "\<forall>j<length (users s). verifyToken (users s ! j) \<noteq> verifyToken u"
      by (simp add: digest_unused_iff)
    with assms(1) u show ?thesis
      by (auto simp: single_digests_def nth_append less_Suc_eq)
  next
    fix i
    assume "i < length (users s)" "users (snd (handle L C E r s)) =
      (users s)[i := (verified_paths (users s ! i))\<lparr> updatedAt := now E \<rparr>]"
    with assms(1) show ?thesis
      by (auto simp: single_digests_def nth_list_update verified_paths_def split: if_splits)
  next
    fix i
    assume "draws_token r" and i: "i < length (users s)"
      "users (snd (handle L C E r s)) =
        (users s)[i := (users s ! i)\<lparr> verifyToken := Some (sha256_hex L (randomBytes_hex E)),
                                       verifyTokenExpires := Some (now E + day_ms),
                                       updatedAt := now E \<rparr>]"
    with assms(2)
    have "\<forall>j<length (users s). verifyToken (users s ! j) \<noteq> Some (sha256_hex L (randomBytes_hex E))"
      by (simp add: digest_unused_iff)
    with assms(1) i show ?thesis
      by (auto simp: single_digests_def nth_list_update split: if_splits)
  qed
qed

lemma single_digests_run:
  "single_digests s \<Longrightarrow> fresh_run L C s reqs \<Longrightarrow> single_digests (run L C s reqs)"
proof (induction reqs arbitrary: s)
  case Nil
  then show ?case by simp
next
  case (Cons er reqs)
  from Cons.prems have "single_digests (snd (handle L C (fst er) (snd er) s))"
    by (intro single_digests_step) (simp_all split: if_splits)
  with Cons.prems Cons.IH show ?case by simp
qed

lemma token_gone_after_verify:
  assumes "single_digests s" and "i < length (users s)"
    and "token_matches d t1 (users s ! i)"
  shows "findOne_token sel d t2 ((users s)[i := (verified_paths (users s ! i))\<lparr> updatedAt := x \<rparr>])
         = None"
proof -
  have "\<not> token_matches d t2 (((users s)[i := (verified_paths (users s ! i))\<lparr> updatedAt := x \<rparr>]) ! j)"
    if "j < length (users s)" for j
  proof (cases "j = i")
    case True
    with that show ?thesis
      by (simp add: token_matches_def verified_paths_def)
  next
    case False
    with assms that have "verifyToken (users s ! j) \<noteq> Some d"
      by (auto simp: single_digests_def token_matches_def)
    with False show ?thesis
      by (simp add: token_matches_def)
  qed
  then show ?thesis
    by (auto simp: findOne_token_None in_set_conv_nth)
qed


text \<open>
  Claim C3.  Take any state reached from the empty store by requests whose random
  tokens are fresh.  If \<open>verifyEmail\<close> accepts a token there, then presenting the same
  token again in the resulting state, at any time, fails with 400 ``Invalid or expired
  verification link.'' and changes nothing (and the router's handler redirects to the
  failure page): the accepting call cleared the only stored copy of the digest.
\<close>

theorem verify_single_use:
  assumes "fresh_run L C init_state reqs"
    and "fst (verifyEmail L C E1 t (run L C init_state reqs)) =
           redirect (tmpl (js_or (FRONTEND_URL C) localhost) @ ''/verify-success'')"
  shows "verifyEmail L C E2 t (snd (verifyEmail L C E1 t (run L C init_state reqs))) =
           (send_text 400 ''Invalid or expired verification link.'',
            snd (verifyEmail L C E1 t (run L C init_state reqs))) \<and>
         router_verify L C E2 t (snd (verifyEmail L C E1 t (run L C init_state reqs))) =
           (redirect (tmpl (APP_BASE_URL C) @ ''/verify-failed''),
            snd (verifyEmail L C E1 t (run L C init_state reqs)))"
proof -
  define s where "s = run L C init_state reqs"
  have "single_digests init_state"
    by (simp add: single_digests_def init_state_def)
  from single_digests_run [OF this assms(1)] have single: "single_digests s"
    by (simp add: s_def)
  from assms(2) have t: "t \<noteq> []"
    by (auto simp: verifyEmail_def send_text_def redirect_def)
  from verifyEmail_success [OF assms(2)] obtain i where i: "i < length (users s)"
    "token_matches (sha256_hex L t) (now E1) (users s ! i)"
    "snd (verifyEmail L C E1 t s) =
       s\<lparr> users := (users s)[i := (verified_paths (users s ! i))\<lparr> updatedAt := now E1 \<rparr>] \<rparr>"
    unfolding s_def by blast
  from token_gone_after_verify [OF single i(1,2)]
  have "findOne_token Default_select (sha256_hex L t) (now E2)
          (users (snd (verifyEmail L C E1 t s))) = None"
    by (simp add: i(3))
  with t show ?thesis
    unfolding s_def by (simp add: verifyEmail_def router_verify_def)
qed

text \<open>
  Ann registers and draws the token \<open>aa\<close>; the token is accepted at time 2000 and
  refused at time 2500.
\<close>

theorem verify_single_use_witness:
  "fresh_run demo_lib demo_config init_state [(env_at 1000 ''aa'' True, Register ann)] \<and>
   verifyEmail demo_lib demo_config (env_at 2000 [] True) ''aa'' s_registered =
     (redirect ''http://localhost:5173/verify-success'', s_verified) \<and>
   verifyEmail demo_lib demo_config (env_at 2500 [] True) ''aa'' s_verified =
     (send_text 400 ''Invalid or expired verification link.'', s_verified) \<and>
   router_verify demo_lib demo_config (env_at 2500 [] True) ''aa'' s_verified =
     (redirect ''undefined/verify-failed'', s_verified)"
proof -
  have fresh: "fresh_run demo_lib demo_config init_state [(env_at 1000 ''aa'' True, Register ann)]"
    by (simp add: digest_unused_def init_state_def)
  have run: "run demo_lib demo_config init_state [(env_at 1000 ''aa'' True, Register ann)]
      = s_registered"
    by (simp add: register_ann)
  have page: "tmpl (js_or (FRONTEND_URL demo_config) localhost) @ ''/verify-success'' =
      ''http://localhost:5173/verify-success''"
    "tmpl (APP_BASE_URL demo_config) @ ''/verify-failed'' = ''undefined/verify-failed''"
    by (simp_all add: demo_config_def js_or_def present_def tmpl_def localhost_def)
  have ok: "fst (verifyEmail demo_lib demo_config (env_at 2000 [] True) ''aa''
      (run demo_lib demo_config init_state [(env_at 1000 ''aa'' True, Register ann)])) =
      redirect (tmpl (js_or (FRONTEND_URL demo_config) localhost) @ ''/verify-success'')"
    by (simp only: run page verify_ann fst_conv)
  from verify_single_use [OF fresh ok, of "env_at 2500 [] True"]
  have "verifyEmail demo_lib demo_config (env_at 2500 [] True) ''aa'' s_verified =
     (send_text 400 ''Invalid or expired verification link.'', s_verified) \<and>
   router_verify demo_lib demo_config (env_at 2500 [] True) ''aa'' s_verified =
     (redirect ''undefined/verify-failed'', s_verified)"
    by (simp only: run page verify_ann snd_conv)
  with fresh verify_ann show ?thesis
    by blast
qed

section \<open>Login after registration and verification\<close>

text \<open>
  The controller's \<open>loginUser\<close> reads the user without \<open>+password\<close>, so the document it
  gets has no \<open>password\<close> (\<open>select: false\<close>) and \<open>bcrypt.compare\<close> rejects: whatever the
  libraries, the request and the state, it never answers 200.
\<close>

lemma password_project_Default: "password (project Default_select u) = None"
  by (simp add: project_def excluded_def schema_unselected_def)

lemma loginUser_never_succeeds: "status (fst (loginUser L C E b s)) \<noteq> 200"
proof -
  have "findOne_email Default_select q (users s) = Some (i, u) \<Longrightarrow> password u = None" for q i u
    by (auto simp: findOne_email_def password_project_Default)
  then show ?thesis
    by (auto simp: loginUser_def Let_def json_msg_def bcrypt_compare_def
        split: option.splits prod.splits)
qed

text \<open>
  Both register handlers hash the password and then save a new document, on which the
  \<open>pre("save")\<close> hook hashes the stored value again: the stored password is the hash of
  the hash.
\<close>

lemma registerUser_stores_hash_of_hash:
  "users (snd (registerUser L C E b s)) \<noteq> users s \<Longrightarrow> body_password b = Some p \<Longrightarrow>
   password (last (users (snd (registerUser L C E b s)))) =
     Some (bcrypt_hash L (bcrypt_hash L p (genSalt_handler E)) (genSalt_hook E))"
  by (auto simp: registerUser_def Let_def insert_user_def save_paths_def pre_save_def sendMail_def
      new_user_def present_def split: option.splits sum.splits db_error.splits prod.splits if_splits)

lemma router_register_stores_hash_of_hash:
  "users (snd (router_register L C E b s)) \<noteq> users s \<Longrightarrow> body_password b = Some p \<Longrightarrow>
   password (last (users (snd (router_register L C E b s)))) =
     Some (bcrypt_hash L (bcrypt_hash L p (genSalt_handler E)) (genSalt_hook E))"
  by (auto simp: router_register_def Let_def insert_user_def pre_save_def sendMail_def
      new_user_def present_def split: option.splits sum.splits prod.splits if_splits)

lemma login_ann_verified:
  "loginUser demo_lib demo_config (env_at 3000 [] True) ann_login s_verified =
     (json_msg 500 ''Server error during login.'', s_verified)"
  by (simp add: loginUser_def Let_def present_def ann_login_def form_def norm_ann
      findOne_email_def set_email_ann s_verified_def ann_user_def project_def excluded_def
      schema_unselected_def bcrypt_compare_def)

lemma router_login_ann_verified:
  "router_login demo_lib demo_config (env_at 3000 [] True) ann_login s_verified =
     (json_msg 400 ''Invalid credentials.'', s_verified)"
  by (simp add: router_login_def Let_def ann_login_def form_def
      findOne_email_def set_email_ann s_verified_def ann_user_def project_def excluded_def
      schema_unselected_def bcrypt_compare_def demo_lib_def)

text \<open>
  Claim C1, on the code.  The example of the specification: Ann registers with the
  password \<open>secret1\<close> (201), verifies with her token (redirect to the success page, her
  record verified), and logs in with the same email and password.  The controller
  answers 500 and the router 400, neither sets a cookie.  The stored password is the
  stand-in hash of the stand-in hash of \<open>secret1\<close>.
\<close>

theorem roundtrip_login_fails:
  "registerUser demo_lib demo_config (env_at 1000 ''aa'' True) ann init_state =
     (json_msg 201 ''User registered. Please check your email to verify your account.'',
      s_registered) \<and>
   verifyEmail demo_lib demo_config (env_at 2000 [] True) ''aa'' s_registered =
     (redirect ''http://localhost:5173/verify-success'', s_verified) \<and>
   emailVerified (users s_verified ! 0) \<and>
   password (users s_verified ! 0) =
     Some (bcrypt_hash demo_lib (bcrypt_hash demo_lib ''secret1'' ''s001'') ''s002'') \<and>
   loginUser demo_lib demo_config (env_at 3000 [] True) ann_login s_verified =
     (json_msg 500 ''Server error during login.'', s_verified) \<and>
   router_login demo_lib demo_config (env_at 3000 [] True) ann_login s_verified =
     (json_msg 400 ''Invalid credentials.'', s_verified) \<and>
   cookie (json_msg 500 ''Server error during login.'') = No_cookie \<and>
   cookie (json_msg 400 ''Invalid credentials.'') = No_cookie"
proof -
  have "emailVerified (users s_verified ! 0)"
    and "password (users s_verified ! 0) =
      Some (bcrypt_hash demo_lib (bcrypt_hash demo_lib ''secret1'' ''s001'') ''s002'')"
    by (simp_all add: s_verified_def ann_user_def demo_lib_def)
  then show ?thesis
    by (simp add: register_ann verify_ann login_ann_verified router_login_ann_verified json_msg_def)
qed

end
